theory Spec2Isabelle
  imports Complex_Main
begin

section \<open>Python text primitives used by \<open>ESP32Device.parse_data\<close>\<close>

text \<open>
  A line of telemetry is a Python \<open>str\<close>. It is modelled as a list of characters whose
  code points are below 256. In that range \<open>str.strip()\<close> removes the code points
  9-13, 28-32, 133 and 160, while \<open>int()\<close> skips only 9-13, 32, 133 and 160 around the
  number: the separators 28-31 make it raise \<open>ValueError\<close>.
\<close>

definition py_isspace :: "char \<Rightarrow> bool" where
  "py_isspace c = (c \<in> set [CHR 0x09, CHR 0x0A, CHR 0x0B, CHR 0x0C, CHR 0x0D,
                             CHR 0x1C, CHR 0x1D, CHR 0x1E, CHR 0x1F, CHR 0x20,
                             CHR 0x85, CHR 0xA0])"

definition py_strip :: "string \<Rightarrow> string" where
  \<comment> \<open>\<open>s.strip()\<close>\<close>
  "py_strip s = rev (dropWhile py_isspace (rev (dropWhile py_isspace s)))"

fun py_split :: "char \<Rightarrow> string \<Rightarrow> string list" where
  \<comment> \<open>\<open>s.split(sep)\<close> for a one-character separator; the empty string gives \<open>['']\<close>\<close>
  "py_split sep [] = [[]]"
| "py_split sep (c # cs) =
     (if c = sep then [] # py_split sep cs
      else (case py_split sep cs of
              [] \<Rightarrow> [[c]]
            | p # ps \<Rightarrow> (c # p) # ps))"

definition split_once :: "char \<Rightarrow> string \<Rightarrow> string \<times> string" where
  \<comment> \<open>\<open>key, value = part.split(sep, 1)\<close>, used only when \<open>sep in part\<close>\<close>
  "split_once sep part =
     (takeWhile (\<lambda>c. c \<noteq> sep) part, drop 1 (dropWhile (\<lambda>c. c \<noteq> sep) part))"

definition int_isspace :: "char \<Rightarrow> bool" where
  \<comment> \<open>the characters \<open>int()\<close> skips before and after the number\<close>
  "int_isspace c = (c \<in> set [CHR 0x09, CHR 0x0A, CHR 0x0B, CHR 0x0C, CHR 0x0D, CHR 0x20,
                              CHR 0x85, CHR 0xA0])"

definition int_strip :: "string \<Rightarrow> string" where
  "int_strip s = rev (dropWhile int_isspace (rev (dropWhile int_isspace s)))"

definition is_digit :: "char \<Rightarrow> bool" where
  "is_digit c = (c \<in> set ''0123456789'')"

definition digit_val :: "char \<Rightarrow> int" where
  "digit_val c = int (of_char c) - 48"

fun scan_digits :: "char \<Rightarrow> string \<Rightarrow> int \<Rightarrow> nat \<Rightarrow> (int \<times> nat) option" where
  \<comment> \<open>the digit loop of \<open>int()\<close>: previous character, rest, value so far, digits seen.
      An underscore is accepted only between two digits.\<close>
  "scan_digits prev [] acc n = (if prev = CHR ''_'' then None else Some (acc, n))"
| "scan_digits prev (c # cs) acc n =
     (if c = CHR ''_'' then (if prev = CHR ''_'' then None else scan_digits c cs acc n)
      else if is_digit c then scan_digits c cs (10 * acc + digit_val c) (Suc n)
      else None)"

definition max_str_digits :: nat where
  \<comment> \<open>CPython's default limit on the digits of a decimal string (\<open>ValueError\<close> beyond it)\<close>
  "max_str_digits = 4300"

definition py_int :: "string \<Rightarrow> int option" where
  \<comment> \<open>\<open>int(s)\<close> on a \<open>str\<close>; \<open>None\<close> stands for the \<open>ValueError\<close> it raises\<close>
  "py_int s =
     (case int_strip s of
        [] \<Rightarrow> None
      | c # cs \<Rightarrow>
          (let sgn = (if c = CHR ''-'' then - 1 else 1);
               body = (if c = CHR ''-'' \<or> c = CHR ''+'' then cs else c # cs)
           in case body of
                [] \<Rightarrow> None
              | d # ds \<Rightarrow>
                  if d = CHR ''_'' then None
                  else (case scan_digits (CHR 0x00) body 0 0 of
                          None \<Rightarrow> None
                        | Some (v, n) \<Rightarrow>
                            if max_str_digits < n then None else Some (sgn * v))))"

definition data_dict :: "string \<Rightarrow> (string \<rightharpoonup> string)" where
  \<comment> \<open>lines 95-101: the dictionary built from the comma-separated parts; a part without
      a colon is skipped, a repeated key keeps its last value\<close>
  "data_dict data_string =
     fold (\<lambda>part m. if CHR '':'' \<in> set part
                     then (case split_once (CHR '':'') part of (k, v) \<Rightarrow> m(k \<mapsto> v))
                     else m)
          (py_split (CHR '','') (py_strip data_string)) Map.empty"

section \<open>Device state\<close>

type_synonym clock = real

record reading =
  hr :: "int option"
  hr_valid :: bool
  spo2 :: "int option"
  spo2_valid :: bool
  ir_avg :: "int option"
  ir_range :: "int option"
  timestamp :: "int option"
  local_time :: "clock option"
  status :: string

record metrics_rec =
  bpm :: "real option"
  ipm :: "real option"
  hrstd :: "real option"
  rmssd :: "real option"
  avg_spo2 :: "int option"

record device =
  device_id :: int
  name :: string
  mac_address :: "string option"
  sock :: bool
  connected :: bool
  latest_data :: reading
  hr_history :: "int list"
  timestamp_history :: "clock list"
  hr_smoothing_buffer :: "int list"
  spo2_smoothing_buffer :: "int list"
  smoothed_hr :: "int option"
  smoothed_spo2 :: "int option"
  metrics :: metrics_rec

definition new_device :: "int \<Rightarrow> string \<Rightarrow> string option \<Rightarrow> device" where
  \<comment> \<open>\<open>ESP32Device.__init__\<close>; \<open>sock\<close> tells whether \<open>self.sock\<close> holds a socket object\<close>
  "new_device i n mac =
     \<lparr> device_id = i, name = n, mac_address = mac, sock = False, connected = False,
       latest_data = \<lparr> hr = None, hr_valid = False, spo2 = None, spo2_valid = False,
                       ir_avg = None, ir_range = None, timestamp = None,
                       local_time = None, status = ''disconnected'' \<rparr>,
       hr_history = [], timestamp_history = [],
       hr_smoothing_buffer = [], spo2_smoothing_buffer = [],
       smoothed_hr = None, smoothed_spo2 = None,
       metrics = \<lparr> bpm = None, ipm = None, hrstd = None, rmssd = None, avg_spo2 = None \<rparr> \<rparr>"

definition deque_append :: "nat \<Rightarrow> 'a \<Rightarrow> 'a list \<Rightarrow> 'a list" where
  \<comment> \<open>\<open>deque(maxlen=cap).append(x)\<close>: the oldest entries leave on the left\<close>
  "deque_append cap x xs = (let ys = xs @ [x] in drop (length ys - cap) ys)"

section \<open>Connection life cycle\<close>

datatype bt_outcome = SocketRaises | ConnectRaises | Established

definition connect :: "bt_outcome \<Rightarrow> device \<Rightarrow> bool \<times> device" where
  \<comment> \<open>lines 61-79; the Bluetooth library's behaviour is the parameter: creating the socket
      raises, \<open>sock.connect\<close> raises, or the link is established. The handler catches
      every \<open>Exception\<close>, so the result is always the returned flag\<close>
  "connect bt s =
     (if mac_address s = None then (False, s)
      else (case bt of
              SocketRaises \<Rightarrow>
                (False, s\<lparr>connected := False,
                          latest_data := (latest_data s)\<lparr>status := ''error''\<rparr>\<rparr>)
            | ConnectRaises \<Rightarrow>
                (False, s\<lparr>sock := True, connected := False,
                          latest_data := (latest_data s)\<lparr>status := ''error''\<rparr>\<rparr>)
            | Established \<Rightarrow>
                (True, s\<lparr>sock := True, connected := True,
                         latest_data := (latest_data s)\<lparr>status := ''connected''\<rparr>\<rparr>)))"

definition disconnect :: "bool \<Rightarrow> device \<Rightarrow> device" where
  \<comment> \<open>lines 81-90; \<open>close_raises\<close> tells whether \<open>sock.close()\<close> raises, which the bare
      \<open>except\<close> swallows\<close>
  "disconnect close_raises s =
     (let s1 = (if sock s then (if close_raises then s else s) else s)
      in s1\<lparr>connected := False,
            latest_data := (latest_data s1)\<lparr>status := ''disconnected''\<rparr>\<rparr>)"

definition on_bluetooth_error :: "device \<Rightarrow> device" where
  \<comment> \<open>lines 206-210: the \<open>BluetoothError\<close> handler of \<open>receive_data\<close>\<close>
  "on_bluetooth_error s =
     s\<lparr>connected := False, latest_data := (latest_data s)\<lparr>status := ''error''\<rparr>\<rparr>"

section \<open>Smoothing and metrics\<close>

text \<open>
  NumPy returns floats. They are modelled as real numbers: \<open>np.mean\<close>, \<open>np.median\<close>,
  \<open>np.std\<close>, \<open>np.diff\<close> and \<open>np.sqrt\<close> are taken exactly, without the rounding of
  double precision. \<open>int(x)\<close> on a float truncates toward zero.
\<close>

definition py_trunc :: "real \<Rightarrow> int" where
  \<comment> \<open>\<open>int(x)\<close> for a float \<open>x\<close>\<close>
  "py_trunc x = (if 0 \<le> x then \<lfloor>x\<rfloor> else \<lceil>x\<rceil>)"

definition np_mean :: "real list \<Rightarrow> real" where
  "np_mean xs = sum_list xs / real (length xs)"

definition np_median :: "real list \<Rightarrow> real" where
  \<comment> \<open>\<open>np.median(a)\<close> of a non-empty list: the middle element of the sorted values, or
      the mean of the two middle elements\<close>
  "np_median xs =
     (let ys = sort xs; n = length ys
      in if odd n then ys ! (n div 2)
         else (ys ! (n div 2 - 1) + ys ! (n div 2)) / 2)"

definition np_std :: "real list \<Rightarrow> real" where
  \<comment> \<open>\<open>np.std(a)\<close> with its default \<open>ddof=0\<close>: \<open>sqrt(mean(abs(a - a.mean()) ** 2))\<close>\<close>
  "np_std xs = sqrt (np_mean (map (\<lambda>x. \<bar>x - np_mean xs\<bar> ^ 2) xs))"

definition np_diff :: "int list \<Rightarrow> int list" where
  \<comment> \<open>\<open>np.diff(a)\<close>: \<open>a[i+1] - a[i]\<close>\<close>
  "np_diff xs = map (\<lambda>(a, b). b - a) (zip xs (drop 1 xs))"

definition calculate_smoothed_values :: "device \<Rightarrow> device" where
  \<comment> \<open>lines 150-162; with an empty buffer the attribute is not assigned\<close>
  "calculate_smoothed_values s =
     (let s1 = (if 3 \<le> length (hr_smoothing_buffer s)
                then s\<lparr>smoothed_hr :=
                         Some (py_trunc (np_median (map real_of_int (hr_smoothing_buffer s))))\<rparr>
                else if 0 < length (hr_smoothing_buffer s)
                then s\<lparr>smoothed_hr :=
                         Some (py_trunc (np_mean (map real_of_int (hr_smoothing_buffer s))))\<rparr>
                else s)
      in if 3 \<le> length (spo2_smoothing_buffer s1)
         then s1\<lparr>smoothed_spo2 :=
                   Some (py_trunc (np_mean (map real_of_int (spo2_smoothing_buffer s1))))\<rparr>
         else if 0 < length (spo2_smoothing_buffer s1)
         then s1\<lparr>smoothed_spo2 := Some (last (spo2_smoothing_buffer s1))\<rparr>
         else s1)"

definition calculate_metrics :: "device \<Rightarrow> device" where
  \<comment> \<open>lines 164-187\<close>
  "calculate_metrics s =
     (if length (hr_history s) < 2 then s
      else
        (let hr_array = hr_history s;
             m1 = (metrics s)\<lparr>bpm := Some (np_mean (map real_of_int hr_array))\<rparr>;
             m2 = m1\<lparr>ipm := bpm m1\<rparr>;
             m3 = m2\<lparr>hrstd := Some (np_std (map real_of_int hr_array))\<rparr>;
             m4 = (if 2 \<le> length hr_array
                   then m3\<lparr>rmssd := Some (sqrt (np_mean
                              (map (\<lambda>d. real_of_int (d ^ 2)) (np_diff hr_array))))\<rparr>
                   else m3);
             m5 = (if spo2_valid (latest_data s)
                   then (case spo2 (latest_data s) of
                           None \<Rightarrow> m4
                         | Some v \<Rightarrow> m4\<lparr>avg_spo2 := Some v\<rparr>)
                   else m4)
         in s\<lparr>metrics := m5\<rparr>))"

section \<open>Parsing one line\<close>

text \<open>
  \<open>parse_data\<close> mutates the device in place inside a \<open>try\<close>. An exception leaves the
  assignments made before it; \<open>Raised\<close> carries the device as it is at that moment.
\<close>

datatype outcome = Done device | Raised device

definition and_then :: "outcome \<Rightarrow> (device \<Rightarrow> outcome) \<Rightarrow> outcome" where
  "and_then r f = (case r of Done s \<Rightarrow> f s | Raised s \<Rightarrow> Raised s)"

definition store_int ::
  "(string \<rightharpoonup> string) \<Rightarrow> string \<Rightarrow> (int \<Rightarrow> reading \<Rightarrow> reading) \<Rightarrow> device \<Rightarrow> outcome" where
  \<comment> \<open>\<open>if key in data_dict: self.latest_data[field] = ... int(data_dict[key])\<close>\<close>
  "store_int d k put s =
     (case d k of
        None \<Rightarrow> Done s
      | Some v \<Rightarrow>
          (case py_int v of
             None \<Rightarrow> Raised s
           | Some n \<Rightarrow> Done (s\<lparr>latest_data := put n (latest_data s)\<rparr>)))"

definition update_latest :: "(string \<rightharpoonup> string) \<Rightarrow> device \<Rightarrow> outcome" where
  \<comment> \<open>lines 104-117, in the order of the source\<close>
  "update_latest d s =
     and_then (store_int d ''HR'' (\<lambda>n l. l\<lparr>hr := Some n\<rparr>) s) (\<lambda>s.
     and_then (store_int d ''HR_VALID'' (\<lambda>n l. l\<lparr>hr_valid := (n \<noteq> 0)\<rparr>) s) (\<lambda>s.
     and_then (store_int d ''SPO2'' (\<lambda>n l. l\<lparr>spo2 := Some n\<rparr>) s) (\<lambda>s.
     and_then (store_int d ''SPO2_VALID'' (\<lambda>n l. l\<lparr>spo2_valid := (n \<noteq> 0)\<rparr>) s) (\<lambda>s.
     and_then (store_int d ''IR_AVG'' (\<lambda>n l. l\<lparr>ir_avg := Some n\<rparr>) s) (\<lambda>s.
     and_then (store_int d ''IR_RANGE'' (\<lambda>n l. l\<lparr>ir_range := Some n\<rparr>) s) (\<lambda>s.
     store_int d ''TIMESTAMP'' (\<lambda>n l. l\<lparr>timestamp := Some n\<rparr>) s))))))"

definition set_status :: "(string \<rightharpoonup> string) \<Rightarrow> clock \<Rightarrow> device \<Rightarrow> device" where
  \<comment> \<open>lines 119-125; \<open>now\<close> is the value of \<open>datetime.now()\<close>\<close>
  "set_status d now s =
     s\<lparr>latest_data := (latest_data s)\<lparr>local_time := Some now,
          status := (case d ''STATUS'' of Some v \<Rightarrow> v | None \<Rightarrow> ''receiving'')\<rparr>\<rparr>"

definition admit_hr :: "clock \<Rightarrow> device \<Rightarrow> device" where
  \<comment> \<open>lines 127-132; \<open>t\<close> is the value of \<open>time.time()\<close>\<close>
  "admit_hr t s =
     (case hr (latest_data s) of
        None \<Rightarrow> s
      | Some v \<Rightarrow>
          if hr_valid (latest_data s) \<and> 40 \<le> v \<and> v \<le> 200
          then s\<lparr>hr_history := deque_append 300 v (hr_history s),
                 timestamp_history := deque_append 300 t (timestamp_history s),
                 hr_smoothing_buffer := deque_append 5 v (hr_smoothing_buffer s)\<rparr>
          else s)"

definition admit_spo2 :: "device \<Rightarrow> device" where
  \<comment> \<open>lines 134-137\<close>
  "admit_spo2 s =
     (case spo2 (latest_data s) of
        None \<Rightarrow> s
      | Some v \<Rightarrow>
          if spo2_valid (latest_data s) \<and> 70 \<le> v \<and> v \<le> 100
          then s\<lparr>spo2_smoothing_buffer := deque_append 5 v (spo2_smoothing_buffer s)\<rparr>
          else s)"

definition parse_data :: "clock \<Rightarrow> clock \<Rightarrow> string \<Rightarrow> device \<Rightarrow> bool \<times> device" where
  \<comment> \<open>lines 92-148: the returned flag and the device after the call\<close>
  "parse_data now t data_string s =
     (let d = data_dict data_string
      in case update_latest d s of
           Raised s' \<Rightarrow> (False, s')
         | Done s1 \<Rightarrow>
             (True, calculate_metrics (calculate_smoothed_values
                      (admit_spo2 (admit_hr t (set_status d now s1))))))"

section \<open>What a line carries\<close>

definition int_keys :: "string list" where
  \<comment> \<open>the keys whose value \<open>parse_data\<close> converts with \<open>int\<close>, in the order of the source\<close>
  "int_keys = [''HR'', ''HR_VALID'', ''SPO2'', ''SPO2_VALID'', ''IR_AVG'', ''IR_RANGE'',
               ''TIMESTAMP'']"

definition line_value :: "(string \<rightharpoonup> string) \<Rightarrow> string \<Rightarrow> int option" where
  \<comment> \<open>the integer a line carries for a key: none when the key is absent or its text is
      not an integer\<close>
  "line_value d k = (case d k of None \<Rightarrow> None | Some v \<Rightarrow> py_int v)"

definition bad_key :: "(string \<rightharpoonup> string) \<Rightarrow> string \<Rightarrow> bool" where
  \<comment> \<open>the key is present with a text that \<open>int\<close> rejects\<close>
  "bad_key d k = (d k \<noteq> None \<and> line_value d k = None)"

definition decode_fails :: "(string \<rightharpoonup> string) \<Rightarrow> bool" where
  \<comment> \<open>some recognised integer key is present with a text that \<open>int\<close> rejects\<close>
  "decode_fails d = list_ex (bad_key d) int_keys"

definition put_if :: "(string \<rightharpoonup> string) \<Rightarrow> string \<Rightarrow> (int \<Rightarrow> reading \<Rightarrow> reading) \<Rightarrow> reading \<Rightarrow> reading" where
  "put_if d k put l = (case line_value d k of None \<Rightarrow> l | Some n \<Rightarrow> put n l)"

definition decoded :: "(string \<rightharpoonup> string) \<Rightarrow> reading \<Rightarrow> reading" where
  \<comment> \<open>the latest reading once every assignment of lines 104-117 has been made\<close>
  "decoded d l =
     put_if d ''TIMESTAMP'' (\<lambda>n l. l\<lparr>timestamp := Some n\<rparr>)
      (put_if d ''IR_RANGE'' (\<lambda>n l. l\<lparr>ir_range := Some n\<rparr>)
      (put_if d ''IR_AVG'' (\<lambda>n l. l\<lparr>ir_avg := Some n\<rparr>)
      (put_if d ''SPO2_VALID'' (\<lambda>n l. l\<lparr>spo2_valid := (n \<noteq> 0)\<rparr>)
      (put_if d ''SPO2'' (\<lambda>n l. l\<lparr>spo2 := Some n\<rparr>)
      (put_if d ''HR_VALID'' (\<lambda>n l. l\<lparr>hr_valid := (n \<noteq> 0)\<rparr>)
      (put_if d ''HR'' (\<lambda>n l. l\<lparr>hr := Some n\<rparr>) l))))))"

section \<open>The receive loop\<close>

definition receive_lines :: "clock \<Rightarrow> string list \<Rightarrow> device \<Rightarrow> device" where
  \<comment> \<open>lines 200-203: every complete line that is not blank goes to \<open>parse_data\<close>, whose
      result is not looked at; \<open>t\<close> is the clock reading during the calls\<close>
  "receive_lines t ls s =
     fold (\<lambda>line s. if py_strip line \<noteq> [] then snd (parse_data t t line s) else s) ls s"

section \<open>States a device can be in\<close>

text \<open>
  The operations that change a device: \<open>connect\<close>, \<open>disconnect\<close>, \<open>parse_data\<close> on a
  received line, and the error handler of the receive loop.
\<close>

inductive step :: "device \<Rightarrow> device \<Rightarrow> bool" where
  s_connect: "step s (snd (connect bt s))"
| s_disconnect: "step s (disconnect cr s)"
| s_parse: "step s (snd (parse_data now t line s))"
| s_bt_error: "step s (on_bluetooth_error s)"

inductive reachable :: "device \<Rightarrow> bool" where
  r_init: "reachable (new_device i n mac)"
| r_step: "reachable s \<Longrightarrow> step s s' \<Longrightarrow> reachable s'"

section \<open>Consistency of the derived values\<close>

definition smoothed_current :: "device \<Rightarrow> bool" where
  \<comment> \<open>the smoothed values are the ones \<open>calculate_smoothed_values\<close> derives from the
      buffers as they are now, and are absent while a buffer is empty\<close>
  "smoothed_current s =
     (smoothed_hr s =
        (if 3 \<le> length (hr_smoothing_buffer s)
         then Some (py_trunc (np_median (map real_of_int (hr_smoothing_buffer s))))
         else if 0 < length (hr_smoothing_buffer s)
         then Some (py_trunc (np_mean (map real_of_int (hr_smoothing_buffer s))))
         else None)
      \<and> smoothed_spo2 s =
        (if 3 \<le> length (spo2_smoothing_buffer s)
         then Some (py_trunc (np_mean (map real_of_int (spo2_smoothing_buffer s))))
         else if 0 < length (spo2_smoothing_buffer s)
         then Some (last (spo2_smoothing_buffer s))
         else None))"

definition metrics_current :: "device \<Rightarrow> bool" where
  \<comment> \<open>the metrics of the heart-rate history are the ones \<open>calculate_metrics\<close> derives
      from the history as it is now, and every metric is absent while the history holds
      fewer than two samples\<close>
  "metrics_current s =
     (if length (hr_history s) < 2
      then metrics s = \<lparr> bpm = None, ipm = None, hrstd = None, rmssd = None, avg_spo2 = None \<rparr>
      else bpm (metrics s) = Some (np_mean (map real_of_int (hr_history s)))
           \<and> ipm (metrics s) = Some (np_mean (map real_of_int (hr_history s)))
           \<and> hrstd (metrics s) = Some (np_std (map real_of_int (hr_history s)))
           \<and> rmssd (metrics s) =
               Some (sqrt (np_mean (map (\<lambda>d. real_of_int (d ^ 2)) (np_diff (hr_history s))))))"

section \<open>Two standard deviations\<close>

definition population_std :: "real list \<Rightarrow> real" where
  \<comment> \<open>the square root of the sum of squared deviations from the mean, divided by \<open>n\<close>\<close>
  "population_std xs =
     sqrt ((\<Sum>x\<leftarrow>xs. (x - sum_list xs / real (length xs)) ^ 2) / real (length xs))"

definition sample_std :: "real list \<Rightarrow> real" where
  \<comment> \<open>the square root of the sum of squared deviations from the mean, divided by \<open>n - 1\<close>\<close>
  "sample_std xs =
     sqrt ((\<Sum>x\<leftarrow>xs. (x - sum_list xs / real (length xs)) ^ 2) / (real (length xs) - 1))"

section \<open>A device to run examples on\<close>

abbreviation fresh_device :: device where
  "fresh_device \<equiv> new_device 1 ''ESP32_HR_1'' (Some ''AA:BB:CC:DD:EE:FF'')"

abbreviation outlier_run :: device where
  "outlier_run \<equiv>
     receive_lines 0 [''HR:72,HR_VALID:1'', ''HR:75'', ''HR:200'', ''HR:74'', ''HR:73''] fresh_device"

abbreviation two_sample_run :: device where
  "two_sample_run \<equiv> receive_lines 0 [''HR:72,HR_VALID:1'', ''HR:75''] fresh_device"

abbreviation steady_run :: device where
  "steady_run \<equiv>
     receive_lines 0 [''HR:60,HR_VALID:1'', ''HR:60'', ''HR:60'', ''HR:60''] fresh_device"

abbreviation spread_run :: device where
  "spread_run \<equiv> receive_lines 0 [''HR:40,HR_VALID:1'', ''HR:42''] fresh_device"

section \<open>Properties of the operations\<close>

subsection \<open>The chain of assignments\<close>

lemma store_int_eq:
  "store_int d k put s =
     (if bad_key d k then Raised s
      else Done (s\<lparr>latest_data := put_if d k put (latest_data s)\<rparr>))"
  by (auto simp: store_int_def bad_key_def line_value_def put_if_def split: option.splits)

lemma and_then_store:
  "and_then (store_int d k put s) f =
     (if bad_key d k then Raised s
      else f (s\<lparr>latest_data := put_if d k put (latest_data s)\<rparr>))"
  by (simp add: store_int_eq and_then_def)

lemma decode_fails_iff:
  "decode_fails d \<longleftrightarrow>
     bad_key d ''HR'' \<or> bad_key d ''HR_VALID'' \<or> bad_key d ''SPO2'' \<or> bad_key d ''SPO2_VALID''
     \<or> bad_key d ''IR_AVG'' \<or> bad_key d ''IR_RANGE'' \<or> bad_key d ''TIMESTAMP''"
  by (simp add: decode_fails_def int_keys_def)

lemma update_latest_ok:
  assumes "\<not> decode_fails d"
  shows "update_latest d s = Done (s\<lparr>latest_data := decoded d (latest_data s)\<rparr>)"
  using assms
  apply (simp only: update_latest_def and_then_store)
  apply (simp only: store_int_eq)
  apply (simp add: decoded_def decode_fails_iff)
  done

lemma put_if_keeps:
  "(\<And>n l. status (put n l) = status l) \<Longrightarrow> status (put_if d k put l) = status l"
  "(\<And>n l. local_time (put n l) = local_time l) \<Longrightarrow> local_time (put_if d k put l) = local_time l"
  "(\<And>n l. hr (put n l) = hr l) \<Longrightarrow> hr (put_if d k put l) = hr l"
  "(\<And>n l. hr_valid (put n l) = hr_valid l) \<Longrightarrow> hr_valid (put_if d k put l) = hr_valid l"
  "(\<And>n l. spo2 (put n l) = spo2 l) \<Longrightarrow> spo2 (put_if d k put l) = spo2 l"
  "(\<And>n l. spo2_valid (put n l) = spo2_valid l) \<Longrightarrow> spo2_valid (put_if d k put l) = spo2_valid l"
  "(\<And>n l. ir_avg (put n l) = ir_avg l) \<Longrightarrow> ir_avg (put_if d k put l) = ir_avg l"
  "(\<And>n l. ir_range (put n l) = ir_range l) \<Longrightarrow> ir_range (put_if d k put l) = ir_range l"
  "(\<And>n l. timestamp (put n l) = timestamp l) \<Longrightarrow> timestamp (put_if d k put l) = timestamp l"
  by (simp_all add: put_if_def split: option.splits)

lemma put_if_sets:
  "hr (put_if d k (\<lambda>n l. l\<lparr>hr := Some n\<rparr>) l) = (case line_value d k of None \<Rightarrow> hr l | Some n \<Rightarrow> Some n)"
  "hr_valid (put_if d k (\<lambda>n l. l\<lparr>hr_valid := (n \<noteq> 0)\<rparr>) l) = (case line_value d k of None \<Rightarrow> hr_valid l | Some n \<Rightarrow> n \<noteq> 0)"
  "spo2 (put_if d k (\<lambda>n l. l\<lparr>spo2 := Some n\<rparr>) l) = (case line_value d k of None \<Rightarrow> spo2 l | Some n \<Rightarrow> Some n)"
  "spo2_valid (put_if d k (\<lambda>n l. l\<lparr>spo2_valid := (n \<noteq> 0)\<rparr>) l) = (case line_value d k of None \<Rightarrow> spo2_valid l | Some n \<Rightarrow> n \<noteq> 0)"
  "ir_avg (put_if d k (\<lambda>n l. l\<lparr>ir_avg := Some n\<rparr>) l) = (case line_value d k of None \<Rightarrow> ir_avg l | Some n \<Rightarrow> Some n)"
  "ir_range (put_if d k (\<lambda>n l. l\<lparr>ir_range := Some n\<rparr>) l) = (case line_value d k of None \<Rightarrow> ir_range l | Some n \<Rightarrow> Some n)"
  "timestamp (put_if d k (\<lambda>n l. l\<lparr>timestamp := Some n\<rparr>) l) = (case line_value d k of None \<Rightarrow> timestamp l | Some n \<Rightarrow> Some n)"
  by (simp_all add: put_if_def split: option.splits)

lemma decoded_fields:
  "hr (decoded d l) = (case line_value d ''HR'' of None \<Rightarrow> hr l | Some n \<Rightarrow> Some n)"
  "hr_valid (decoded d l) = (case line_value d ''HR_VALID'' of None \<Rightarrow> hr_valid l | Some n \<Rightarrow> n \<noteq> 0)"
  "spo2 (decoded d l) = (case line_value d ''SPO2'' of None \<Rightarrow> spo2 l | Some n \<Rightarrow> Some n)"
  "spo2_valid (decoded d l) = (case line_value d ''SPO2_VALID'' of None \<Rightarrow> spo2_valid l | Some n \<Rightarrow> n \<noteq> 0)"
  "ir_avg (decoded d l) = (case line_value d ''IR_AVG'' of None \<Rightarrow> ir_avg l | Some n \<Rightarrow> Some n)"
  "ir_range (decoded d l) = (case line_value d ''IR_RANGE'' of None \<Rightarrow> ir_range l | Some n \<Rightarrow> Some n)"
  "timestamp (decoded d l) = (case line_value d ''TIMESTAMP'' of None \<Rightarrow> timestamp l | Some n \<Rightarrow> Some n)"
  "status (decoded d l) = status l"
  "local_time (decoded d l) = local_time l"
  by (simp_all add: decoded_def put_if_keeps put_if_sets cong: option.case_cong)

subsection \<open>What each stage of \<open>parse_data\<close> leaves alone\<close>

lemma set_status_fields [simp]:
  "hr_history (set_status d now s) = hr_history s"
  "timestamp_history (set_status d now s) = timestamp_history s"
  "hr_smoothing_buffer (set_status d now s) = hr_smoothing_buffer s"
  "spo2_smoothing_buffer (set_status d now s) = spo2_smoothing_buffer s"
  "smoothed_hr (set_status d now s) = smoothed_hr s"
  "smoothed_spo2 (set_status d now s) = smoothed_spo2 s"
  "metrics (set_status d now s) = metrics s"
  "hr (latest_data (set_status d now s)) = hr (latest_data s)"
  "hr_valid (latest_data (set_status d now s)) = hr_valid (latest_data s)"
  "spo2 (latest_data (set_status d now s)) = spo2 (latest_data s)"
  "spo2_valid (latest_data (set_status d now s)) = spo2_valid (latest_data s)"
  "ir_avg (latest_data (set_status d now s)) = ir_avg (latest_data s)"
  "ir_range (latest_data (set_status d now s)) = ir_range (latest_data s)"
  "timestamp (latest_data (set_status d now s)) = timestamp (latest_data s)"
  "local_time (latest_data (set_status d now s)) = Some now"
  "status (latest_data (set_status d now s)) = (case d ''STATUS'' of Some v \<Rightarrow> v | None \<Rightarrow> ''receiving'')"
  by (simp_all add: set_status_def)

lemma admit_hr_fields [simp]:
  "latest_data (admit_hr t s) = latest_data s"
  "spo2_smoothing_buffer (admit_hr t s) = spo2_smoothing_buffer s"
  "smoothed_hr (admit_hr t s) = smoothed_hr s"
  "smoothed_spo2 (admit_hr t s) = smoothed_spo2 s"
  "metrics (admit_hr t s) = metrics s"
  by (simp_all add: admit_hr_def split: option.splits)

lemma admit_spo2_fields [simp]:
  "latest_data (admit_spo2 s) = latest_data s"
  "hr_history (admit_spo2 s) = hr_history s"
  "timestamp_history (admit_spo2 s) = timestamp_history s"
  "hr_smoothing_buffer (admit_spo2 s) = hr_smoothing_buffer s"
  "smoothed_hr (admit_spo2 s) = smoothed_hr s"
  "smoothed_spo2 (admit_spo2 s) = smoothed_spo2 s"
  "metrics (admit_spo2 s) = metrics s"
  by (simp_all add: admit_spo2_def split: option.splits)

lemma calculate_smoothed_values_fields [simp]:
  "latest_data (calculate_smoothed_values s) = latest_data s"
  "hr_history (calculate_smoothed_values s) = hr_history s"
  "timestamp_history (calculate_smoothed_values s) = timestamp_history s"
  "hr_smoothing_buffer (calculate_smoothed_values s) = hr_smoothing_buffer s"
  "spo2_smoothing_buffer (calculate_smoothed_values s) = spo2_smoothing_buffer s"
  "metrics (calculate_smoothed_values s) = metrics s"
  by (simp_all add: calculate_smoothed_values_def Let_def)

lemma calculate_metrics_fields [simp]:
  "latest_data (calculate_metrics s) = latest_data s"
  "hr_history (calculate_metrics s) = hr_history s"
  "timestamp_history (calculate_metrics s) = timestamp_history s"
  "hr_smoothing_buffer (calculate_metrics s) = hr_smoothing_buffer s"
  "spo2_smoothing_buffer (calculate_metrics s) = spo2_smoothing_buffer s"
  "smoothed_hr (calculate_metrics s) = smoothed_hr s"
  "smoothed_spo2 (calculate_metrics s) = smoothed_spo2 s"
  by (simp_all add: calculate_metrics_def Let_def)

lemma admit_hr_history:
  "hr_history (admit_hr t s) =
     (case hr (latest_data s) of
        None \<Rightarrow> hr_history s
      | Some v \<Rightarrow> if hr_valid (latest_data s) \<and> 40 \<le> v \<and> v \<le> 200
                  then deque_append 300 v (hr_history s) else hr_history s)"
  "hr_smoothing_buffer (admit_hr t s) =
     (case hr (latest_data s) of
        None \<Rightarrow> hr_smoothing_buffer s
      | Some v \<Rightarrow> if hr_valid (latest_data s) \<and> 40 \<le> v \<and> v \<le> 200
                  then deque_append 5 v (hr_smoothing_buffer s) else hr_smoothing_buffer s)"
  by (simp_all add: admit_hr_def split: option.splits)

lemma admit_spo2_buffer:
  "spo2_smoothing_buffer (admit_spo2 s) =
     (case spo2 (latest_data s) of
        None \<Rightarrow> spo2_smoothing_buffer s
      | Some v \<Rightarrow> if spo2_valid (latest_data s) \<and> 70 \<le> v \<and> v \<le> 100
                  then deque_append 5 v (spo2_smoothing_buffer s) else spo2_smoothing_buffer s)"
  by (simp add: admit_spo2_def split: option.splits)

subsection \<open>The two ways \<open>parse_data\<close> ends\<close>

lemma update_latest_Raised:
  assumes "update_latest d s = Raised s'"
  shows "s' = s\<lparr>latest_data := latest_data s'\<rparr>
         \<and> status (latest_data s') = status (latest_data s)
         \<and> local_time (latest_data s') = local_time (latest_data s)"
  using assms
  apply (simp only: update_latest_def and_then_store)
  apply (simp only: store_int_eq)
  apply (auto simp: put_if_keeps split: if_splits)
  done

lemma update_latest_Raised_cases:
  assumes "update_latest d s = Raised s'"
  shows "latest_data s' = latest_data s
       \<or> latest_data s' = put_if d ''HR'' (\<lambda>n l. l\<lparr>hr := Some n\<rparr>) (latest_data s)
       \<or> latest_data s' = put_if d ''HR_VALID'' (\<lambda>n l. l\<lparr>hr_valid := (n \<noteq> 0)\<rparr>)
            (put_if d ''HR'' (\<lambda>n l. l\<lparr>hr := Some n\<rparr>) (latest_data s))
       \<or> latest_data s' = put_if d ''SPO2'' (\<lambda>n l. l\<lparr>spo2 := Some n\<rparr>)
            (put_if d ''HR_VALID'' (\<lambda>n l. l\<lparr>hr_valid := (n \<noteq> 0)\<rparr>)
            (put_if d ''HR'' (\<lambda>n l. l\<lparr>hr := Some n\<rparr>) (latest_data s)))
       \<or> latest_data s' = put_if d ''SPO2_VALID'' (\<lambda>n l. l\<lparr>spo2_valid := (n \<noteq> 0)\<rparr>)
            (put_if d ''SPO2'' (\<lambda>n l. l\<lparr>spo2 := Some n\<rparr>)
            (put_if d ''HR_VALID'' (\<lambda>n l. l\<lparr>hr_valid := (n \<noteq> 0)\<rparr>)
            (put_if d ''HR'' (\<lambda>n l. l\<lparr>hr := Some n\<rparr>) (latest_data s))))
       \<or> latest_data s' = put_if d ''IR_AVG'' (\<lambda>n l. l\<lparr>ir_avg := Some n\<rparr>)
            (put_if d ''SPO2_VALID'' (\<lambda>n l. l\<lparr>spo2_valid := (n \<noteq> 0)\<rparr>)
            (put_if d ''SPO2'' (\<lambda>n l. l\<lparr>spo2 := Some n\<rparr>)
            (put_if d ''HR_VALID'' (\<lambda>n l. l\<lparr>hr_valid := (n \<noteq> 0)\<rparr>)
            (put_if d ''HR'' (\<lambda>n l. l\<lparr>hr := Some n\<rparr>) (latest_data s)))))
       \<or> latest_data s' = put_if d ''IR_RANGE'' (\<lambda>n l. l\<lparr>ir_range := Some n\<rparr>)
            (put_if d ''IR_AVG'' (\<lambda>n l. l\<lparr>ir_avg := Some n\<rparr>)
            (put_if d ''SPO2_VALID'' (\<lambda>n l. l\<lparr>spo2_valid := (n \<noteq> 0)\<rparr>)
            (put_if d ''SPO2'' (\<lambda>n l. l\<lparr>spo2 := Some n\<rparr>)
            (put_if d ''HR_VALID'' (\<lambda>n l. l\<lparr>hr_valid := (n \<noteq> 0)\<rparr>)
            (put_if d ''HR'' (\<lambda>n l. l\<lparr>hr := Some n\<rparr>) (latest_data s))))))"
  using assms
  apply (simp only: update_latest_def and_then_store)
  apply (simp only: store_int_eq)
  apply (auto split: if_splits)
  done

lemma update_latest_Raised_values:
  assumes "update_latest d s = Raised s'"
  shows "(hr (latest_data s') = hr (latest_data s)
           \<or> hr (latest_data s') = hr (decoded d (latest_data s)))
       \<and> (hr_valid (latest_data s') = hr_valid (latest_data s)
           \<or> hr_valid (latest_data s') = hr_valid (decoded d (latest_data s)))
       \<and> (spo2 (latest_data s') = spo2 (latest_data s)
           \<or> spo2 (latest_data s') = spo2 (decoded d (latest_data s)))
       \<and> (spo2_valid (latest_data s') = spo2_valid (latest_data s)
           \<or> spo2_valid (latest_data s') = spo2_valid (decoded d (latest_data s)))
       \<and> (ir_avg (latest_data s') = ir_avg (latest_data s)
           \<or> ir_avg (latest_data s') = ir_avg (decoded d (latest_data s)))
       \<and> (ir_range (latest_data s') = ir_range (latest_data s)
           \<or> ir_range (latest_data s') = ir_range (decoded d (latest_data s)))
       \<and> timestamp (latest_data s') = timestamp (latest_data s)"
  using update_latest_Raised_cases [OF assms]
  by (elim disjE)
     (simp_all add: decoded_fields put_if_sets put_if_keeps cong: option.case_cong)

lemma update_latest_fails:
  assumes "decode_fails d"
  shows "\<exists>s'. update_latest d s = Raised s'"
  using assms
  apply (simp only: update_latest_def and_then_store)
  apply (simp only: store_int_eq decode_fails_iff)
  apply (simp split: if_splits)
  apply blast
  done

lemma parse_data_ok:
  assumes "\<not> decode_fails (data_dict line)"
  shows "parse_data now t line s =
           (True, calculate_metrics (calculate_smoothed_values (admit_spo2 (admit_hr t
                    (set_status (data_dict line) now
                       (s\<lparr>latest_data := decoded (data_dict line) (latest_data s)\<rparr>))))))"
  by (simp add: parse_data_def Let_def update_latest_ok [OF assms])

lemma parse_data_fails:
  assumes "decode_fails (data_dict line)"
  shows "fst (parse_data now t line s) = False
         \<and> snd (parse_data now t line s) = s\<lparr>latest_data := latest_data (snd (parse_data now t line s))\<rparr>
         \<and> status (latest_data (snd (parse_data now t line s))) = status (latest_data s)
         \<and> local_time (latest_data (snd (parse_data now t line s))) = local_time (latest_data s)"
proof -
  from update_latest_fails [OF assms] obtain s' where r: "update_latest (data_dict line) s = Raised s'"
    by blast
  have p: "parse_data now t line s = (False, s')"
    by (simp add: parse_data_def Let_def r)
  show ?thesis
    using update_latest_Raised [OF r] by (simp add: p)
qed

lemma parse_data_Raised:
  assumes "decode_fails (data_dict line)"
  shows "update_latest (data_dict line) s = Raised (snd (parse_data now t line s))"
proof -
  from update_latest_fails [OF assms] obtain s' where r: "update_latest (data_dict line) s = Raised s'"
    by blast
  then show ?thesis by (simp add: parse_data_def Let_def)
qed

lemma parse_data_flag: "fst (parse_data now t line s) = (\<not> decode_fails (data_dict line))"
  using parse_data_ok [of line now t s] parse_data_fails [of line now t s]
  by (cases "decode_fails (data_dict line)") simp_all

subsection \<open>The device after a line that decodes\<close>

lemma parse_ok_latest:
  assumes "\<not> decode_fails (data_dict line)"
  shows "latest_data (snd (parse_data now t line s)) =
           (decoded (data_dict line) (latest_data s))
             \<lparr>local_time := Some now,
              status := (case data_dict line ''STATUS'' of Some v \<Rightarrow> v | None \<Rightarrow> ''receiving'')\<rparr>"
  by (simp add: parse_data_ok [OF assms] set_status_def)

lemma parse_ok_hr:
  assumes "\<not> decode_fails (data_dict line)"
  shows "hr_history (snd (parse_data now t line s)) =
           (case hr (decoded (data_dict line) (latest_data s)) of
              None \<Rightarrow> hr_history s
            | Some v \<Rightarrow>
                if hr_valid (decoded (data_dict line) (latest_data s)) \<and> 40 \<le> v \<and> v \<le> 200
                then deque_append 300 v (hr_history s) else hr_history s)"
    and "hr_smoothing_buffer (snd (parse_data now t line s)) =
           (case hr (decoded (data_dict line) (latest_data s)) of
              None \<Rightarrow> hr_smoothing_buffer s
            | Some v \<Rightarrow>
                if hr_valid (decoded (data_dict line) (latest_data s)) \<and> 40 \<le> v \<and> v \<le> 200
                then deque_append 5 v (hr_smoothing_buffer s) else hr_smoothing_buffer s)"
  by (simp_all add: parse_data_ok [OF assms] admit_hr_history cong: option.case_cong if_cong)

lemma parse_ok_spo2:
  assumes "\<not> decode_fails (data_dict line)"
  shows "spo2_smoothing_buffer (snd (parse_data now t line s)) =
           (case spo2 (decoded (data_dict line) (latest_data s)) of
              None \<Rightarrow> spo2_smoothing_buffer s
            | Some v \<Rightarrow>
                if spo2_valid (decoded (data_dict line) (latest_data s)) \<and> 70 \<le> v \<and> v \<le> 100
                then deque_append 5 v (spo2_smoothing_buffer s) else spo2_smoothing_buffer s)"
  by (simp add: parse_data_ok [OF assms] admit_spo2_buffer cong: option.case_cong if_cong)

lemma smoothed_hr_after:
  "smoothed_hr (calculate_smoothed_values s) =
     (if 3 \<le> length (hr_smoothing_buffer s)
      then Some (py_trunc (np_median (map real_of_int (hr_smoothing_buffer s))))
      else if 0 < length (hr_smoothing_buffer s)
      then Some (py_trunc (np_mean (map real_of_int (hr_smoothing_buffer s))))
      else smoothed_hr s)"
  by (simp add: calculate_smoothed_values_def Let_def)

lemma smoothed_spo2_after:
  "smoothed_spo2 (calculate_smoothed_values s) =
     (if 3 \<le> length (spo2_smoothing_buffer s)
      then Some (py_trunc (np_mean (map real_of_int (spo2_smoothing_buffer s))))
      else if 0 < length (spo2_smoothing_buffer s)
      then Some (last (spo2_smoothing_buffer s))
      else smoothed_spo2 s)"
  by (auto simp: calculate_smoothed_values_def Let_def)

lemma parse_ok_smoothed_hr:
  assumes "\<not> decode_fails (data_dict line)"
  shows "smoothed_hr (snd (parse_data now t line s)) =
     (if 3 \<le> length (hr_smoothing_buffer (snd (parse_data now t line s)))
      then Some (py_trunc (np_median (map real_of_int (hr_smoothing_buffer (snd (parse_data now t line s))))))
      else if 0 < length (hr_smoothing_buffer (snd (parse_data now t line s)))
      then Some (py_trunc (np_mean (map real_of_int (hr_smoothing_buffer (snd (parse_data now t line s))))))
      else smoothed_hr s)"
  by (simp add: parse_data_ok [OF assms] smoothed_hr_after)

lemma parse_ok_smoothed_spo2:
  assumes "\<not> decode_fails (data_dict line)"
  shows "smoothed_spo2 (snd (parse_data now t line s)) =
     (if 3 \<le> length (spo2_smoothing_buffer (snd (parse_data now t line s)))
      then Some (py_trunc (np_mean (map real_of_int (spo2_smoothing_buffer (snd (parse_data now t line s))))))
      else if 0 < length (spo2_smoothing_buffer (snd (parse_data now t line s)))
      then Some (last (spo2_smoothing_buffer (snd (parse_data now t line s))))
      else smoothed_spo2 s)"
  by (simp add: parse_data_ok [OF assms] smoothed_spo2_after)

lemma metrics_after:
  "metrics (calculate_metrics s) =
     (if length (hr_history s) < 2 then metrics s
      else \<lparr> bpm = Some (np_mean (map real_of_int (hr_history s))),
             ipm = Some (np_mean (map real_of_int (hr_history s))),
             hrstd = Some (np_std (map real_of_int (hr_history s))),
             rmssd = Some (sqrt (np_mean (map (\<lambda>d. real_of_int (d ^ 2)) (np_diff (hr_history s))))),
             avg_spo2 = (if spo2_valid (latest_data s)
                         then (case spo2 (latest_data s) of
                                 None \<Rightarrow> avg_spo2 (metrics s) | Some v \<Rightarrow> Some v)
                         else avg_spo2 (metrics s)) \<rparr>)"
  by (simp add: calculate_metrics_def Let_def split: option.splits)

lemma parse_ok_metrics:
  assumes "\<not> decode_fails (data_dict line)"
  shows "metrics (snd (parse_data now t line s)) =
     (if length (hr_history (snd (parse_data now t line s))) < 2 then metrics s
      else \<lparr> bpm = Some (np_mean (map real_of_int (hr_history (snd (parse_data now t line s))))),
             ipm = Some (np_mean (map real_of_int (hr_history (snd (parse_data now t line s))))),
             hrstd = Some (np_std (map real_of_int (hr_history (snd (parse_data now t line s))))),
             rmssd = Some (sqrt (np_mean (map (\<lambda>d. real_of_int (d ^ 2))
                                   (np_diff (hr_history (snd (parse_data now t line s))))))),
             avg_spo2 = (if spo2_valid (latest_data (snd (parse_data now t line s)))
                         then (case spo2 (latest_data (snd (parse_data now t line s))) of
                                 None \<Rightarrow> avg_spo2 (metrics s) | Some v \<Rightarrow> Some v)
                         else avg_spo2 (metrics s)) \<rparr>)"
  by (simp add: parse_data_ok [OF assms] metrics_after cong: option.case_cong if_cong)

subsection \<open>The device after a line that does not decode\<close>

lemma parse_fail_fields:
  assumes "decode_fails (data_dict line)"
  shows "hr_history (snd (parse_data now t line s)) = hr_history s"
    and "timestamp_history (snd (parse_data now t line s)) = timestamp_history s"
    and "hr_smoothing_buffer (snd (parse_data now t line s)) = hr_smoothing_buffer s"
    and "spo2_smoothing_buffer (snd (parse_data now t line s)) = spo2_smoothing_buffer s"
    and "smoothed_hr (snd (parse_data now t line s)) = smoothed_hr s"
    and "smoothed_spo2 (snd (parse_data now t line s)) = smoothed_spo2 s"
    and "metrics (snd (parse_data now t line s)) = metrics s"
    and "connected (snd (parse_data now t line s)) = connected s"
    and "sock (snd (parse_data now t line s)) = sock s"
    and "mac_address (snd (parse_data now t line s)) = mac_address s"
proof -
  let ?s' = "snd (parse_data now t line s)"
  have eq: "?s' = s\<lparr>latest_data := latest_data ?s'\<rparr>"
    using parse_data_fails [OF assms, of now t s] by simp
  show "hr_history ?s' = hr_history s" using arg_cong [OF eq, of hr_history] by simp
  show "timestamp_history ?s' = timestamp_history s" using arg_cong [OF eq, of timestamp_history] by simp
  show "hr_smoothing_buffer ?s' = hr_smoothing_buffer s" using arg_cong [OF eq, of hr_smoothing_buffer] by simp
  show "spo2_smoothing_buffer ?s' = spo2_smoothing_buffer s" using arg_cong [OF eq, of spo2_smoothing_buffer] by simp
  show "smoothed_hr ?s' = smoothed_hr s" using arg_cong [OF eq, of smoothed_hr] by simp
  show "smoothed_spo2 ?s' = smoothed_spo2 s" using arg_cong [OF eq, of smoothed_spo2] by simp
  show "metrics ?s' = metrics s" using arg_cong [OF eq, of metrics] by simp
  show "connected ?s' = connected s" using arg_cong [OF eq, of connected] by simp
  show "sock ?s' = sock s" using arg_cong [OF eq, of sock] by simp
  show "mac_address ?s' = mac_address s" using arg_cong [OF eq, of mac_address] by simp
qed

subsection \<open>The connection operations leave the measurements alone\<close>

lemma connect_fields [simp]:
  "hr_history (snd (connect bt s)) = hr_history s"
  "hr_smoothing_buffer (snd (connect bt s)) = hr_smoothing_buffer s"
  "spo2_smoothing_buffer (snd (connect bt s)) = spo2_smoothing_buffer s"
  "smoothed_hr (snd (connect bt s)) = smoothed_hr s"
  "smoothed_spo2 (snd (connect bt s)) = smoothed_spo2 s"
  "metrics (snd (connect bt s)) = metrics s"
  by (simp_all add: connect_def split: bt_outcome.splits)

lemma disconnect_fields [simp]:
  "hr_history (disconnect cr s) = hr_history s"
  "hr_smoothing_buffer (disconnect cr s) = hr_smoothing_buffer s"
  "spo2_smoothing_buffer (disconnect cr s) = spo2_smoothing_buffer s"
  "smoothed_hr (disconnect cr s) = smoothed_hr s"
  "smoothed_spo2 (disconnect cr s) = smoothed_spo2 s"
  "metrics (disconnect cr s) = metrics s"
  by (simp_all add: disconnect_def)

lemma on_bluetooth_error_fields [simp]:
  "hr_history (on_bluetooth_error s) = hr_history s"
  "hr_smoothing_buffer (on_bluetooth_error s) = hr_smoothing_buffer s"
  "spo2_smoothing_buffer (on_bluetooth_error s) = spo2_smoothing_buffer s"
  "smoothed_hr (on_bluetooth_error s) = smoothed_hr s"
  "smoothed_spo2 (on_bluetooth_error s) = smoothed_spo2 s"
  "metrics (on_bluetooth_error s) = metrics s"
  by (simp_all add: on_bluetooth_error_def)

subsection \<open>Bounded queues\<close>

lemma deque_append_length: "length (deque_append cap x xs) = min (Suc (length xs)) cap"
  by (simp add: deque_append_def Let_def)

lemma deque_append_not_Nil: "0 < cap \<Longrightarrow> deque_append cap x xs \<noteq> []"
  using deque_append_length [of cap x xs] by (cases "deque_append cap x xs") simp_all

subsection \<open>Invariants of the reachable states\<close>

lemma parse_hr_buffer_Nil:
  assumes "hr_smoothing_buffer (snd (parse_data now t line s)) = []"
  shows "hr_smoothing_buffer s = []"
proof (cases "decode_fails (data_dict line)")
  case True
  then show ?thesis using assms by (simp add: parse_fail_fields)
next
  case False
  then show ?thesis
    using assms by (simp add: parse_ok_hr deque_append_not_Nil split: option.splits if_splits)
qed

lemma parse_spo2_buffer_Nil:
  assumes "spo2_smoothing_buffer (snd (parse_data now t line s)) = []"
  shows "spo2_smoothing_buffer s = []"
proof (cases "decode_fails (data_dict line)")
  case True
  then show ?thesis using assms by (simp add: parse_fail_fields)
next
  case False
  then show ?thesis
    using assms by (simp add: parse_ok_spo2 deque_append_not_Nil split: option.splits if_splits)
qed

lemma parse_history_short:
  assumes "length (hr_history (snd (parse_data now t line s))) < 2"
  shows "length (hr_history s) < 2"
proof (cases "decode_fails (data_dict line)")
  case True
  then show ?thesis using assms by (simp add: parse_fail_fields)
next
  case False
  then show ?thesis
    using assms by (simp add: parse_ok_hr deque_append_length split: option.splits if_splits)
qed

lemma step_smoothed:
  assumes "step s s'" and "smoothed_current s"
  shows "smoothed_current s'"
  using assms(1)
proof cases
  case (s_parse now t line)
  show ?thesis
  proof (cases "decode_fails (data_dict line)")
    case True
    then show ?thesis using assms(2) by (simp add: s_parse parse_fail_fields smoothed_current_def)
  next
    case False
    have hr: "hr_smoothing_buffer s' = [] \<Longrightarrow> smoothed_hr s = None"
      using parse_hr_buffer_Nil [of now t line s] assms(2) s_parse
      by (simp add: smoothed_current_def)
    have sp: "spo2_smoothing_buffer s' = [] \<Longrightarrow> smoothed_spo2 s = None"
      using parse_spo2_buffer_Nil [of now t line s] assms(2) s_parse
      by (simp add: smoothed_current_def)
    have 1: "smoothed_hr s' =
           (if 3 \<le> length (hr_smoothing_buffer s')
            then Some (py_trunc (np_median (map real_of_int (hr_smoothing_buffer s'))))
            else if 0 < length (hr_smoothing_buffer s')
            then Some (py_trunc (np_mean (map real_of_int (hr_smoothing_buffer s'))))
            else None)"
      using hr parse_ok_smoothed_hr [OF False, of now t s] unfolding s_parse by simp
    have 2: "smoothed_spo2 s' =
        (if 3 \<le> length (spo2_smoothing_buffer s')
         then Some (py_trunc (np_mean (map real_of_int (spo2_smoothing_buffer s'))))
         else if 0 < length (spo2_smoothing_buffer s')
         then Some (last (spo2_smoothing_buffer s'))
         else None)"
      using sp parse_ok_smoothed_spo2 [OF False, of now t s] unfolding s_parse by simp
    show ?thesis
      unfolding smoothed_current_def using 1 2 by blast
  qed
qed (use assms(2) in \<open>simp_all add: smoothed_current_def\<close>)

lemma reachable_smoothed:
  assumes "reachable s"
  shows "smoothed_current s"
  using assms
proof induction
  case (r_init i n mac)
  show ?case by (simp add: new_device_def smoothed_current_def)
next
  case (r_step s s')
  then show ?case using step_smoothed by blast
qed

lemma step_metrics:
  assumes "step s s'" and "metrics_current s"
  shows "metrics_current s'"
  using assms(1)
proof cases
  case (s_parse now t line)
  show ?thesis
  proof (cases "decode_fails (data_dict line)")
    case True
    then show ?thesis using assms(2) by (simp add: s_parse parse_fail_fields metrics_current_def)
  next
    case False
    show ?thesis
    proof (cases "length (hr_history s') < 2")
      case True
      then have "length (hr_history s) < 2"
        using parse_history_short s_parse by blast
      then have "metrics s = \<lparr> bpm = None, ipm = None, hrstd = None, rmssd = None, avg_spo2 = None \<rparr>"
        using assms(2) by (simp add: metrics_current_def)
      then show ?thesis
        using True parse_ok_metrics [OF False, of now t s] unfolding s_parse
        by (simp add: metrics_current_def)
    next
      case long: False
      then show ?thesis
        using parse_ok_metrics [OF False, of now t s] unfolding s_parse
        by (simp add: metrics_current_def)
    qed
  qed
qed (use assms(2) in \<open>simp_all add: metrics_current_def\<close>)

lemma reachable_metrics:
  assumes "reachable s"
  shows "metrics_current s"
  using assms
proof induction
  case (r_init i n mac)
  show ?case by (simp add: new_device_def metrics_current_def)
next
  case (r_step s s')
  then show ?case using step_metrics by blast
qed

subsection \<open>Lines without a colon\<close>

lemma set_py_strip: "set (py_strip s) \<subseteq> set s"
proof -
  have "set (py_strip s) \<subseteq> set (dropWhile py_isspace s)"
    unfolding py_strip_def using set_dropWhileD by fastforce
  also have "\<dots> \<subseteq> set s" using set_dropWhileD by fastforce
  finally show ?thesis .
qed

lemma py_split_parts: "p \<in> set (py_split sep s) \<Longrightarrow> set p \<subseteq> set s"
proof (induction s arbitrary: p)
  case Nil
  then show ?case by simp
next
  case (Cons c cs)
  show ?case
  proof (cases "c = sep")
    case True
    then show ?thesis using Cons by auto
  next
    case False
    then show ?thesis using Cons by (cases "py_split sep cs") fastforce+
  qed
qed

lemma fold_unchanged: "(\<And>x. x \<in> set xs \<Longrightarrow> f x = (\<lambda>m. m)) \<Longrightarrow> fold f xs a = a"
  by (induction xs arbitrary: a) simp_all

lemma data_dict_no_colon:
  assumes "CHR '':'' \<notin> set line"
  shows "data_dict line = Map.empty"
proof -
  have "CHR '':'' \<notin> set p" if "p \<in> set (py_split (CHR '','') (py_strip line))" for p
    using that assms py_split_parts set_py_strip by blast
  then show ?thesis
    unfolding data_dict_def by (intro fold_unchanged) auto
qed

lemma decoded_empty: "decoded Map.empty l = l"
  by (simp add: decoded_def put_if_def line_value_def)

lemma decode_fails_empty: "\<not> decode_fails Map.empty"
  by (simp add: decode_fails_iff bad_key_def)

subsection \<open>A field after a line that decodes\<close>

lemma field_from_line:
  "\<not> bad_key d k \<Longrightarrow>
     (case line_value d k of None \<Rightarrow> old | Some n \<Rightarrow> Some n) =
     (case d k of None \<Rightarrow> old | Some v \<Rightarrow> py_int v)"
  by (auto simp: bad_key_def line_value_def split: option.splits)

lemma flag_from_line:
  "\<not> bad_key d k \<Longrightarrow>
     (case line_value d k of None \<Rightarrow> old | Some n \<Rightarrow> n \<noteq> 0) =
     (case d k of None \<Rightarrow> old | Some v \<Rightarrow> py_int v \<noteq> None \<and> py_int v \<noteq> Some 0)"
  by (auto simp: bad_key_def line_value_def split: option.splits)

subsection \<open>Concrete lines\<close>

lemmas text_eval = data_dict_def py_strip_def py_isspace_def split_once_def py_int_def
  int_strip_def int_isspace_def
  is_digit_def digit_val_def max_str_digits_def line_value_def bad_key_def decode_fails_iff
  decoded_def put_if_def

lemma ln_hr72v:
  "py_strip ''HR:72,HR_VALID:1'' \<noteq> []"
  "\<not> decode_fails (data_dict ''HR:72,HR_VALID:1'')"
  "decoded (data_dict ''HR:72,HR_VALID:1'') l = l\<lparr>hr := Some 72, hr_valid := True\<rparr>"
  "data_dict ''HR:72,HR_VALID:1'' = [''HR'' \<mapsto> ''72'', ''HR_VALID'' \<mapsto> ''1'']"
  by (simp_all add: text_eval)

lemma ln_hr72:
  "py_strip ''HR:72'' \<noteq> []"
  "\<not> decode_fails (data_dict ''HR:72'')"
  "decoded (data_dict ''HR:72'') l = l\<lparr>hr := Some 72\<rparr>"
  "data_dict ''HR:72'' = [''HR'' \<mapsto> ''72'']"
  by (simp_all add: text_eval)

lemma ln_hr75:
  "py_strip ''HR:75'' \<noteq> []"
  "\<not> decode_fails (data_dict ''HR:75'')"
  "decoded (data_dict ''HR:75'') l = l\<lparr>hr := Some 75\<rparr>"
  "data_dict ''HR:75'' = [''HR'' \<mapsto> ''75'']"
  by (simp_all add: text_eval)

lemma ln_hr200:
  "py_strip ''HR:200'' \<noteq> []"
  "\<not> decode_fails (data_dict ''HR:200'')"
  "decoded (data_dict ''HR:200'') l = l\<lparr>hr := Some 200\<rparr>"
  "data_dict ''HR:200'' = [''HR'' \<mapsto> ''200'']"
  by (simp_all add: text_eval)

lemma ln_hr74:
  "py_strip ''HR:74'' \<noteq> []"
  "\<not> decode_fails (data_dict ''HR:74'')"
  "decoded (data_dict ''HR:74'') l = l\<lparr>hr := Some 74\<rparr>"
  "data_dict ''HR:74'' = [''HR'' \<mapsto> ''74'']"
  by (simp_all add: text_eval)

lemma ln_hr73:
  "py_strip ''HR:73'' \<noteq> []"
  "\<not> decode_fails (data_dict ''HR:73'')"
  "decoded (data_dict ''HR:73'') l = l\<lparr>hr := Some 73\<rparr>"
  "data_dict ''HR:73'' = [''HR'' \<mapsto> ''73'']"
  by (simp_all add: text_eval)

lemma ln_hr60v:
  "py_strip ''HR:60,HR_VALID:1'' \<noteq> []"
  "\<not> decode_fails (data_dict ''HR:60,HR_VALID:1'')"
  "decoded (data_dict ''HR:60,HR_VALID:1'') l = l\<lparr>hr := Some 60, hr_valid := True\<rparr>"
  "data_dict ''HR:60,HR_VALID:1'' = [''HR'' \<mapsto> ''60'', ''HR_VALID'' \<mapsto> ''1'']"
  by (simp_all add: text_eval)

lemma ln_hr60:
  "py_strip ''HR:60'' \<noteq> []"
  "\<not> decode_fails (data_dict ''HR:60'')"
  "decoded (data_dict ''HR:60'') l = l\<lparr>hr := Some 60\<rparr>"
  "data_dict ''HR:60'' = [''HR'' \<mapsto> ''60'']"
  by (simp_all add: text_eval)

lemma ln_hr40v:
  "py_strip ''HR:40,HR_VALID:1'' \<noteq> []"
  "\<not> decode_fails (data_dict ''HR:40,HR_VALID:1'')"
  "decoded (data_dict ''HR:40,HR_VALID:1'') l = l\<lparr>hr := Some 40, hr_valid := True\<rparr>"
  "data_dict ''HR:40,HR_VALID:1'' = [''HR'' \<mapsto> ''40'', ''HR_VALID'' \<mapsto> ''1'']"
  by (simp_all add: text_eval)

lemma ln_hr42:
  "py_strip ''HR:42'' \<noteq> []"
  "\<not> decode_fails (data_dict ''HR:42'')"
  "decoded (data_dict ''HR:42'') l = l\<lparr>hr := Some 42\<rparr>"
  "data_dict ''HR:42'' = [''HR'' \<mapsto> ''42'']"
  by (simp_all add: text_eval)

lemma ln_spo2_98v:
  "py_strip ''SPO2:98,SPO2_VALID:1'' \<noteq> []"
  "\<not> decode_fails (data_dict ''SPO2:98,SPO2_VALID:1'')"
  "decoded (data_dict ''SPO2:98,SPO2_VALID:1'') l = l\<lparr>spo2 := Some 98, spo2_valid := True\<rparr>"
  "data_dict ''SPO2:98,SPO2_VALID:1'' = [''SPO2'' \<mapsto> ''98'', ''SPO2_VALID'' \<mapsto> ''1'']"
  by (simp_all add: text_eval)

lemma ln_spo2_98:
  "py_strip ''SPO2:98'' \<noteq> []"
  "\<not> decode_fails (data_dict ''SPO2:98'')"
  "decoded (data_dict ''SPO2:98'') l = l\<lparr>spo2 := Some 98\<rparr>"
  "data_dict ''SPO2:98'' = [''SPO2'' \<mapsto> ''98'']"
  by (simp_all add: text_eval)

lemma ln_bad_spo2:
  "decode_fails (data_dict ''HR:72,SPO2:abc'')"
  "data_dict ''HR:72,SPO2:abc'' = [''HR'' \<mapsto> ''72'', ''SPO2'' \<mapsto> ''abc'']"
  by (simp_all add: text_eval)

lemma ln_no_finger:
  "py_strip ''STATUS:NO_FINGER'' \<noteq> []"
  "\<not> decode_fails (data_dict ''STATUS:NO_FINGER'')"
  "decoded (data_dict ''STATUS:NO_FINGER'') l = l"
  "data_dict ''STATUS:NO_FINGER'' = [''STATUS'' \<mapsto> ''NO_FINGER'']"
  by (simp_all add: text_eval)

lemma ln_bad_hr:
  "decode_fails (data_dict ''HR:abc'')"
  by (simp add: text_eval)

lemma ln_separator:
  "decode_fails (data_dict (''HR:'' @ CHR 0x1F # ''72''))"
  by (simp add: text_eval)

lemma py_int_literals:
  "py_int ''72'' = Some 72" "py_int ''98'' = Some 98" "py_int ''1'' = Some 1" "py_int ''abc'' = None"
  by (simp_all add: text_eval)

subsection \<open>Running lines through the receive loop\<close>

lemma receive_lines_Nil [simp]: "receive_lines t [] s = s"
  by (simp add: receive_lines_def)

lemma receive_lines_snoc:
  "receive_lines t (ls @ [l]) s =
     (if py_strip l \<noteq> [] then snd (parse_data t t l (receive_lines t ls s))
      else receive_lines t ls s)"
  by (simp add: receive_lines_def)

lemma step_reachable: "reachable s \<Longrightarrow> reachable (snd (parse_data now t line s))"
  using r_step s_parse by blast

lemma reachable_receive_lines: "reachable s \<Longrightarrow> reachable (receive_lines t ls s)"
proof (induction ls rule: rev_induct)
  case Nil
  then show ?case by simp
next
  case (snoc l ls)
  then show ?case by (simp add: receive_lines_snoc step_reachable)
qed

lemma receive_hr_line:
  assumes "py_strip line \<noteq> []"
    and "\<not> decode_fails (data_dict line)"
    and "hr (decoded (data_dict line) (latest_data (receive_lines t ls s))) = Some v"
    and "hr_valid (decoded (data_dict line) (latest_data (receive_lines t ls s)))"
    and "40 \<le> v" and "v \<le> 200"
  shows "hr_history (receive_lines t (ls @ [line]) s)
           = deque_append 300 v (hr_history (receive_lines t ls s))"
    and "hr_smoothing_buffer (receive_lines t (ls @ [line]) s)
           = deque_append 5 v (hr_smoothing_buffer (receive_lines t ls s))"
    and "hr_valid (latest_data (receive_lines t (ls @ [line]) s))"
    and "hr (latest_data (receive_lines t (ls @ [line]) s)) = Some v"
  using assms by (simp_all add: receive_lines_snoc parse_ok_hr parse_ok_latest)

lemma two_sample_run_state:
  "hr_history two_sample_run = [72, 75]"
  "hr_smoothing_buffer two_sample_run = [72, 75]"
  "hr_valid (latest_data two_sample_run)"
  "hr (latest_data two_sample_run) = Some 75"
proof -
  have 1: "hr_history (receive_lines 0 [''HR:72,HR_VALID:1''] fresh_device) = [72]"
    "hr_smoothing_buffer (receive_lines 0 [''HR:72,HR_VALID:1''] fresh_device) = [72]"
    "hr_valid (latest_data (receive_lines 0 [''HR:72,HR_VALID:1''] fresh_device))"
    using receive_hr_line [of "''HR:72,HR_VALID:1''" 0 "[]" fresh_device 72]
    by (simp_all add: ln_hr72v(1-3) new_device_def deque_append_def)
  show "hr_history two_sample_run = [72, 75]"
    "hr_smoothing_buffer two_sample_run = [72, 75]"
    "hr_valid (latest_data two_sample_run)"
    "hr (latest_data two_sample_run) = Some 75"
    using receive_hr_line [of "''HR:75''" 0 "[''HR:72,HR_VALID:1'']" fresh_device 75] 1
    by (simp_all add: ln_hr75(1-3) deque_append_def)
qed

lemma outlier_run_state:
  "hr_smoothing_buffer outlier_run = [72, 75, 200, 74, 73]"
proof -
  have 3: "hr_smoothing_buffer (receive_lines 0 [''HR:72,HR_VALID:1'', ''HR:75'', ''HR:200''] fresh_device) = [72, 75, 200]"
    "hr_valid (latest_data (receive_lines 0 [''HR:72,HR_VALID:1'', ''HR:75'', ''HR:200''] fresh_device))"
    using receive_hr_line [of "''HR:200''" 0 "[''HR:72,HR_VALID:1'', ''HR:75'']" fresh_device 200]
      two_sample_run_state
    by (simp_all add: ln_hr200(1-3) deque_append_def)
  have 4: "hr_smoothing_buffer (receive_lines 0 [''HR:72,HR_VALID:1'', ''HR:75'', ''HR:200'', ''HR:74''] fresh_device) = [72, 75, 200, 74]"
    "hr_valid (latest_data (receive_lines 0 [''HR:72,HR_VALID:1'', ''HR:75'', ''HR:200'', ''HR:74''] fresh_device))"
    using receive_hr_line [of "''HR:74''" 0 "[''HR:72,HR_VALID:1'', ''HR:75'', ''HR:200'']" fresh_device 74] 3
    by (simp_all add: ln_hr74(1-3) deque_append_def)
  show ?thesis
    using receive_hr_line [of "''HR:73''" 0 "[''HR:72,HR_VALID:1'', ''HR:75'', ''HR:200'', ''HR:74'']" fresh_device 73] 4
    by (simp add: ln_hr73(1-3) deque_append_def)
qed

lemma steady_run_state:
  "hr_history steady_run = [60, 60, 60, 60]"
proof -
  have 1: "hr_history (receive_lines 0 [''HR:60,HR_VALID:1''] fresh_device) = [60]"
    "hr_valid (latest_data (receive_lines 0 [''HR:60,HR_VALID:1''] fresh_device))"
    using receive_hr_line [of "''HR:60,HR_VALID:1''" 0 "[]" fresh_device 60]
    by (simp_all add: ln_hr60v(1-3) new_device_def deque_append_def)
  have 2: "hr_history (receive_lines 0 [''HR:60,HR_VALID:1'', ''HR:60''] fresh_device) = [60, 60]"
    "hr_valid (latest_data (receive_lines 0 [''HR:60,HR_VALID:1'', ''HR:60''] fresh_device))"
    using receive_hr_line [of "''HR:60''" 0 "[''HR:60,HR_VALID:1'']" fresh_device 60] 1
    by (simp_all add: ln_hr60(1-3) deque_append_def)
  have 3: "hr_history (receive_lines 0 [''HR:60,HR_VALID:1'', ''HR:60'', ''HR:60''] fresh_device) = [60, 60, 60]"
    "hr_valid (latest_data (receive_lines 0 [''HR:60,HR_VALID:1'', ''HR:60'', ''HR:60''] fresh_device))"
    using receive_hr_line [of "''HR:60''" 0 "[''HR:60,HR_VALID:1'', ''HR:60'']" fresh_device 60] 2
    by (simp_all add: ln_hr60(1-3) deque_append_def)
  show ?thesis
    using receive_hr_line [of "''HR:60''" 0 "[''HR:60,HR_VALID:1'', ''HR:60'', ''HR:60'']" fresh_device 60] 3
    by (simp add: ln_hr60(1-3) deque_append_def)
qed

lemma spread_run_state:
  "hr_history spread_run = [40, 42]"
proof -
  have 1: "hr_history (receive_lines 0 [''HR:40,HR_VALID:1''] fresh_device) = [40]"
    "hr_valid (latest_data (receive_lines 0 [''HR:40,HR_VALID:1''] fresh_device))"
    using receive_hr_line [of "''HR:40,HR_VALID:1''" 0 "[]" fresh_device 40]
    by (simp_all add: ln_hr40v(1-3) new_device_def deque_append_def)
  show ?thesis
    using receive_hr_line [of "''HR:42''" 0 "[''HR:40,HR_VALID:1'']" fresh_device 42] 1
    by (simp add: ln_hr42(1-3) deque_append_def)
qed

lemma reachable_runs:
  "reachable fresh_device" "reachable two_sample_run" "reachable outlier_run"
  "reachable steady_run" "reachable spread_run"
  by (simp_all add: reachable_receive_lines r_init)

section \<open>Parsing\<close>

text \<open>
  Claim C1, as amended. For every line on which \<open>parse_data\<close> succeeds, each recognised
  key present in the line sets its field of the latest reading to the line's value, and
  the field of every recognised key absent from the line keeps the value it had before
  the call: it is unset only if no earlier line has set it. The status becomes the
  line's \<open>STATUS\<close> or \<open>receiving\<close>, and the local time is set. A line without any
  \<open>KEY:VALUE\<close> token still succeeds and leaves every value field as it was.
\<close>

theorem parse_data_fields:
  fixes now t line s
  defines "d \<equiv> data_dict line"
    and "l \<equiv> latest_data s"
    and "l' \<equiv> latest_data (snd (parse_data now t line s))"
  shows "(fst (parse_data now t line s) \<longrightarrow>
            hr l' = (case d ''HR'' of None \<Rightarrow> hr l | Some v \<Rightarrow> py_int v)
          \<and> hr_valid l' = (case d ''HR_VALID'' of None \<Rightarrow> hr_valid l
                            | Some v \<Rightarrow> py_int v \<noteq> None \<and> py_int v \<noteq> Some 0)
          \<and> spo2 l' = (case d ''SPO2'' of None \<Rightarrow> spo2 l | Some v \<Rightarrow> py_int v)
          \<and> spo2_valid l' = (case d ''SPO2_VALID'' of None \<Rightarrow> spo2_valid l
                              | Some v \<Rightarrow> py_int v \<noteq> None \<and> py_int v \<noteq> Some 0)
          \<and> ir_avg l' = (case d ''IR_AVG'' of None \<Rightarrow> ir_avg l | Some v \<Rightarrow> py_int v)
          \<and> ir_range l' = (case d ''IR_RANGE'' of None \<Rightarrow> ir_range l | Some v \<Rightarrow> py_int v)
          \<and> timestamp l' = (case d ''TIMESTAMP'' of None \<Rightarrow> timestamp l | Some v \<Rightarrow> py_int v)
          \<and> status l' = (case d ''STATUS'' of None \<Rightarrow> ''receiving'' | Some v \<Rightarrow> v)
          \<and> local_time l' = Some now)
       \<and> (CHR '':'' \<notin> set line \<longrightarrow>
            fst (parse_data now t line s)
          \<and> hr l' = hr l \<and> hr_valid l' = hr_valid l
          \<and> spo2 l' = spo2 l \<and> spo2_valid l' = spo2_valid l
          \<and> ir_avg l' = ir_avg l \<and> ir_range l' = ir_range l \<and> timestamp l' = timestamp l
          \<and> status l' = ''receiving'')"
proof (intro conjI impI)
  assume "CHR '':'' \<notin> set line"
  then have e: "data_dict line = Map.empty" by (rule data_dict_no_colon)
  have ok: "\<not> decode_fails (data_dict line)" by (simp add: e decode_fails_empty)
  show "fst (parse_data now t line s)" by (simp add: parse_data_flag ok)
  have "l' = l\<lparr>local_time := Some now, status := ''receiving''\<rparr>"
    unfolding l'_def l_def by (simp add: parse_ok_latest [OF ok]) (simp add: e decoded_empty)
  then show "hr l' = hr l" "hr_valid l' = hr_valid l" "spo2 l' = spo2 l"
    "spo2_valid l' = spo2_valid l" "ir_avg l' = ir_avg l" "ir_range l' = ir_range l"
    "timestamp l' = timestamp l" "status l' = ''receiving''"
    by simp_all
next
  assume "fst (parse_data now t line s)"
  then have ok: "\<not> decode_fails (data_dict line)" by (simp add: parse_data_flag)
  then have nb: "\<not> bad_key d ''HR''" "\<not> bad_key d ''HR_VALID''" "\<not> bad_key d ''SPO2''"
    "\<not> bad_key d ''SPO2_VALID''" "\<not> bad_key d ''IR_AVG''" "\<not> bad_key d ''IR_RANGE''"
    "\<not> bad_key d ''TIMESTAMP''"
    by (simp_all add: decode_fails_iff d_def)
  have l': "l' = (decoded d l)\<lparr>local_time := Some now,
              status := (case d ''STATUS'' of Some v \<Rightarrow> v | None \<Rightarrow> ''receiving'')\<rparr>"
    unfolding l'_def l_def d_def by (rule parse_ok_latest [OF ok])
  show "hr l' = (case d ''HR'' of None \<Rightarrow> hr l | Some v \<Rightarrow> py_int v)"
    by (simp add: l' decoded_fields field_from_line [OF nb(1)])
  show "hr_valid l' = (case d ''HR_VALID'' of None \<Rightarrow> hr_valid l
                            | Some v \<Rightarrow> py_int v \<noteq> None \<and> py_int v \<noteq> Some 0)"
    by (simp add: l' decoded_fields flag_from_line [OF nb(2)])
  show "spo2 l' = (case d ''SPO2'' of None \<Rightarrow> spo2 l | Some v \<Rightarrow> py_int v)"
    by (simp add: l' decoded_fields field_from_line [OF nb(3)])
  show "spo2_valid l' = (case d ''SPO2_VALID'' of None \<Rightarrow> spo2_valid l
                              | Some v \<Rightarrow> py_int v \<noteq> None \<and> py_int v \<noteq> Some 0)"
    by (simp add: l' decoded_fields flag_from_line [OF nb(4)])
  show "ir_avg l' = (case d ''IR_AVG'' of None \<Rightarrow> ir_avg l | Some v \<Rightarrow> py_int v)"
    by (simp add: l' decoded_fields field_from_line [OF nb(5)])
  show "ir_range l' = (case d ''IR_RANGE'' of None \<Rightarrow> ir_range l | Some v \<Rightarrow> py_int v)"
    by (simp add: l' decoded_fields field_from_line [OF nb(6)])
  show "timestamp l' = (case d ''TIMESTAMP'' of None \<Rightarrow> timestamp l | Some v \<Rightarrow> py_int v)"
    by (simp add: l' decoded_fields field_from_line [OF nb(7)])
  show "status l' = (case d ''STATUS'' of None \<Rightarrow> ''receiving'' | Some v \<Rightarrow> v)"
    by (simp add: l' split: option.splits)
  show "local_time l' = Some now"
    by (simp add: l')
qed

theorem parse_data_fields_witness:
  "fst (parse_data 0 0 ''HR:72'' fresh_device)
   \<and> hr (latest_data (snd (parse_data 0 0 ''HR:72'' fresh_device))) = Some 72
   \<and> spo2 (latest_data (snd (parse_data 0 0 ''HR:72'' fresh_device))) = None
   \<and> status (latest_data (snd (parse_data 0 0 ''HR:72'' fresh_device))) = ''receiving''
   \<and> CHR '':'' \<notin> set ''NO DATA''
   \<and> fst (parse_data 0 0 ''NO DATA'' fresh_device)
   \<and> hr (latest_data (snd (parse_data 0 0 ''NO DATA'' fresh_device))) = None
   \<and> status (latest_data (snd (parse_data 0 0 ''NO DATA'' fresh_device))) = ''receiving''"
proof -
  have a: "fst (parse_data 0 0 ''HR:72'' fresh_device)"
    by (simp add: parse_data_flag ln_hr72(2))
  have b: "CHR '':'' \<notin> set ''NO DATA''" by simp
  show ?thesis
    using parse_data_fields [of 0 0 "''HR:72''" fresh_device]
      parse_data_fields [of 0 0 "''NO DATA''" fresh_device] a b
    by (simp add: ln_hr72(4) py_int_literals new_device_def)
qed

text \<open>
  The claim as stated fails: after \<open>HR:72\<close>, the line \<open>SPO2:98\<close> has no \<open>HR\<close> key, and
  the reading after it still holds the heart rate 72 of the earlier line.
\<close>

theorem parse_keeps_earlier_fields_counterexample:
  "data_dict ''SPO2:98'' ''HR'' = None
   \<and> fst (parse_data 0 0 ''SPO2:98'' (snd (parse_data 0 0 ''HR:72'' fresh_device)))
   \<and> hr (latest_data (snd (parse_data 0 0 ''SPO2:98''
                              (snd (parse_data 0 0 ''HR:72'' fresh_device))))) = Some 72"
proof -
  have "data_dict ''SPO2:98'' ''HR'' = None"
    by (simp add: ln_spo2_98(4))
  then show ?thesis
    by (simp add: parse_data_flag parse_ok_latest ln_spo2_98(2,3) ln_hr72(2,3))
qed

text \<open>
  Claim C2, as amended. For a line on which \<open>parse_data\<close> succeeds and that carries the
  heart-rate sample \<open>v\<close>, \<open>v\<close> is appended to the history window and to the heart-rate
  smoothing buffer if and only if the heart-rate valid flag of the latest reading is set
  after the line and \<open>40 \<le> v \<le> 200\<close>; otherwise both are left as they were. In the same
  way an SpO2 sample \<open>w\<close> is appended to the SpO2 smoothing buffer if and only if the SpO2
  valid flag is set after the line and \<open>70 \<le> w \<le> 100\<close>.
\<close>

theorem sample_admission:
  fixes now t line s
  defines "d \<equiv> data_dict line" and "s' \<equiv> snd (parse_data now t line s)"
  assumes "fst (parse_data now t line s)"
  shows "(line_value d ''HR'' = Some v \<longrightarrow>
            hr_history s' =
              (if hr_valid (latest_data s') \<and> 40 \<le> v \<and> v \<le> 200
               then deque_append 300 v (hr_history s) else hr_history s)
          \<and> hr_smoothing_buffer s' =
              (if hr_valid (latest_data s') \<and> 40 \<le> v \<and> v \<le> 200
               then deque_append 5 v (hr_smoothing_buffer s) else hr_smoothing_buffer s))
       \<and> (line_value d ''SPO2'' = Some w \<longrightarrow>
            spo2_smoothing_buffer s' =
              (if spo2_valid (latest_data s') \<and> 70 \<le> w \<and> w \<le> 100
               then deque_append 5 w (spo2_smoothing_buffer s) else spo2_smoothing_buffer s))"
proof -
  have ok: "\<not> decode_fails (data_dict line)"
    using assms(3) by (simp add: parse_data_flag)
  have flags: "hr_valid (latest_data s') = hr_valid (decoded d (latest_data s))"
    "spo2_valid (latest_data s') = spo2_valid (decoded d (latest_data s))"
    unfolding s'_def d_def by (simp_all add: parse_ok_latest [OF ok])
  have hr: "hr (decoded d (latest_data s)) = Some v" if "line_value d ''HR'' = Some v"
    using that by (simp add: decoded_fields)
  have sp: "spo2 (decoded d (latest_data s)) = Some w" if "line_value d ''SPO2'' = Some w"
    using that by (simp add: decoded_fields)
  show ?thesis
    unfolding flags unfolding s'_def
    using hr sp by (simp add: parse_ok_hr [OF ok] parse_ok_spo2 [OF ok] d_def)
qed

theorem sample_admission_witness:
  "fst (parse_data 0 0 ''HR:72,HR_VALID:1'' fresh_device)
   \<and> line_value (data_dict ''HR:72,HR_VALID:1'') ''HR'' = Some 72
   \<and> hr_history (snd (parse_data 0 0 ''HR:72,HR_VALID:1'' fresh_device)) = [72]
   \<and> hr_smoothing_buffer (snd (parse_data 0 0 ''HR:72,HR_VALID:1'' fresh_device)) = [72]
   \<and> fst (parse_data 0 0 ''SPO2:98,SPO2_VALID:1'' fresh_device)
   \<and> line_value (data_dict ''SPO2:98,SPO2_VALID:1'') ''SPO2'' = Some 98
   \<and> spo2_smoothing_buffer (snd (parse_data 0 0 ''SPO2:98,SPO2_VALID:1'' fresh_device)) = [98]"
proof -
  have a: "fst (parse_data 0 0 ''HR:72,HR_VALID:1'' fresh_device)"
    "fst (parse_data 0 0 ''SPO2:98,SPO2_VALID:1'' fresh_device)"
    by (simp_all add: parse_data_flag ln_hr72v(2) ln_spo2_98v(2))
  have b: "line_value (data_dict ''HR:72,HR_VALID:1'') ''HR'' = Some 72"
    "line_value (data_dict ''SPO2:98,SPO2_VALID:1'') ''SPO2'' = Some 98"
    by (simp_all add: line_value_def ln_hr72v(4) ln_spo2_98v(4) py_int_literals)
  have c: "hr_valid (latest_data (snd (parse_data 0 0 ''HR:72,HR_VALID:1'' fresh_device)))"
    "spo2_valid (latest_data (snd (parse_data 0 0 ''SPO2:98,SPO2_VALID:1'' fresh_device)))"
    by (simp_all add: parse_ok_latest ln_hr72v(2,3) ln_spo2_98v(2,3))
  show ?thesis
    using sample_admission [of 0 0 "''HR:72,HR_VALID:1''" fresh_device 72 0, OF a(1)]
      sample_admission [of 0 0 "''SPO2:98,SPO2_VALID:1''" fresh_device 0 98, OF a(2)]
      a b c
    by (simp add: new_device_def deque_append_def)
qed

text \<open>
  The claim as stated fails: on a new device the line \<open>HR:72\<close> is parsed, 72 lies in
  the range, and yet the history window and the smoothing buffer stay empty, because the
  valid flag is not set.
\<close>

theorem unflagged_sample_not_admitted_counterexample:
  "fst (parse_data 0 0 ''HR:72'' fresh_device)
   \<and> hr (latest_data (snd (parse_data 0 0 ''HR:72'' fresh_device))) = Some 72
   \<and> hr_history (snd (parse_data 0 0 ''HR:72'' fresh_device)) = []
   \<and> hr_smoothing_buffer (snd (parse_data 0 0 ''HR:72'' fresh_device)) = []"
  by (simp add: parse_data_flag parse_ok_latest parse_ok_hr ln_hr72(2,3) new_device_def)

text \<open>
  Claim C3, as amended. \<open>parse_data\<close> returns a failure, without raising, exactly when
  a recognised integer key of the line has a text that is not an integer. The call then
  leaves the history window, its time stamps, both smoothing buffers, both smoothed
  values, the metrics, the connection flag, the status and the local time exactly as
  they were. Only value fields of the latest reading can differ: each of them either
  keeps its value or already holds the value the line carries for it (\<open>decoded\<close> is the
  reading with every value of the line applied), and the device time stamp, assigned
  last, always keeps its value.
\<close>

theorem parse_failure_frame:
  fixes now t line s
  defines "s' \<equiv> snd (parse_data now t line s)"
  shows "fst (parse_data now t line s) = (\<not> decode_fails (data_dict line))
       \<and> (\<not> fst (parse_data now t line s) \<longrightarrow>
            s' = s\<lparr>latest_data := latest_data s'\<rparr>
          \<and> hr_history s' = hr_history s
          \<and> timestamp_history s' = timestamp_history s
          \<and> hr_smoothing_buffer s' = hr_smoothing_buffer s
          \<and> spo2_smoothing_buffer s' = spo2_smoothing_buffer s
          \<and> smoothed_hr s' = smoothed_hr s
          \<and> smoothed_spo2 s' = smoothed_spo2 s
          \<and> metrics s' = metrics s
          \<and> connected s' = connected s
          \<and> status (latest_data s') = status (latest_data s)
          \<and> local_time (latest_data s') = local_time (latest_data s)
          \<and> (hr (latest_data s') = hr (latest_data s)
               \<or> hr (latest_data s') = hr (decoded (data_dict line) (latest_data s)))
          \<and> (hr_valid (latest_data s') = hr_valid (latest_data s)
               \<or> hr_valid (latest_data s') = hr_valid (decoded (data_dict line) (latest_data s)))
          \<and> (spo2 (latest_data s') = spo2 (latest_data s)
               \<or> spo2 (latest_data s') = spo2 (decoded (data_dict line) (latest_data s)))
          \<and> (spo2_valid (latest_data s') = spo2_valid (latest_data s)
               \<or> spo2_valid (latest_data s')
                    = spo2_valid (decoded (data_dict line) (latest_data s)))
          \<and> (ir_avg (latest_data s') = ir_avg (latest_data s)
               \<or> ir_avg (latest_data s') = ir_avg (decoded (data_dict line) (latest_data s)))
          \<and> (ir_range (latest_data s') = ir_range (latest_data s)
               \<or> ir_range (latest_data s') = ir_range (decoded (data_dict line) (latest_data s)))
          \<and> timestamp (latest_data s') = timestamp (latest_data s))"
proof (intro conjI impI)
  show "fst (parse_data now t line s) = (\<not> decode_fails (data_dict line))"
    by (rule parse_data_flag)
next
  assume "\<not> fst (parse_data now t line s)"
  then have bad: "decode_fails (data_dict line)" by (simp add: parse_data_flag)
  note vals = update_latest_Raised_values [OF parse_data_Raised [OF bad, of s now t]]
  show "hr (latest_data s') = hr (latest_data s)
          \<or> hr (latest_data s') = hr (decoded (data_dict line) (latest_data s))"
    "hr_valid (latest_data s') = hr_valid (latest_data s)
          \<or> hr_valid (latest_data s') = hr_valid (decoded (data_dict line) (latest_data s))"
    "spo2 (latest_data s') = spo2 (latest_data s)
          \<or> spo2 (latest_data s') = spo2 (decoded (data_dict line) (latest_data s))"
    "spo2_valid (latest_data s') = spo2_valid (latest_data s)
          \<or> spo2_valid (latest_data s') = spo2_valid (decoded (data_dict line) (latest_data s))"
    "ir_avg (latest_data s') = ir_avg (latest_data s)
          \<or> ir_avg (latest_data s') = ir_avg (decoded (data_dict line) (latest_data s))"
    "ir_range (latest_data s') = ir_range (latest_data s)
          \<or> ir_range (latest_data s') = ir_range (decoded (data_dict line) (latest_data s))"
    "timestamp (latest_data s') = timestamp (latest_data s)"
    unfolding s'_def using vals by blast+
  show "s' = s\<lparr>latest_data := latest_data s'\<rparr>"
    "status (latest_data s') = status (latest_data s)"
    "local_time (latest_data s') = local_time (latest_data s)"
    unfolding s'_def using parse_data_fails [OF bad, of now t s] by simp_all
  show "hr_history s' = hr_history s" "timestamp_history s' = timestamp_history s"
    "hr_smoothing_buffer s' = hr_smoothing_buffer s"
    "spo2_smoothing_buffer s' = spo2_smoothing_buffer s"
    "smoothed_hr s' = smoothed_hr s" "smoothed_spo2 s' = smoothed_spo2 s"
    "metrics s' = metrics s" "connected s' = connected s"
    unfolding s'_def by (simp_all add: parse_fail_fields [OF bad])
qed

theorem parse_failure_frame_witness:
  "\<not> fst (parse_data 0 0 ''HR:72,SPO2:abc'' fresh_device)
   \<and> decode_fails (data_dict ''HR:72,SPO2:abc'')
   \<and> hr_history (snd (parse_data 0 0 ''HR:72,SPO2:abc'' fresh_device)) = []
   \<and> metrics (snd (parse_data 0 0 ''HR:72,SPO2:abc'' fresh_device)) = metrics fresh_device
   \<and> status (latest_data (snd (parse_data 0 0 ''HR:72,SPO2:abc'' fresh_device)))
       = ''disconnected''
   \<and> py_int (CHR 0x1F # ''72'') = None
   \<and> \<not> fst (parse_data 0 0 (''HR:'' @ CHR 0x1F # ''72'') fresh_device)"
proof -
  have a: "\<not> fst (parse_data 0 0 ''HR:72,SPO2:abc'' fresh_device)"
    by (simp add: parse_data_flag ln_bad_spo2(1))
  have b: "py_int (CHR 0x1F # ''72'') = None"
    by (simp add: text_eval)
  have c: "\<not> fst (parse_data 0 0 (''HR:'' @ CHR 0x1F # ''72'') fresh_device)"
    using parse_failure_frame [of 0 0 "''HR:'' @ CHR 0x1F # ''72''" fresh_device] ln_separator
    by blast
  have d: "hr_history fresh_device = []" "status (latest_data fresh_device) = ''disconnected''"
    by (simp_all add: new_device_def)
  show ?thesis
    using parse_failure_frame [of 0 0 "''HR:72,SPO2:abc''" fresh_device] a b c d ln_bad_spo2(1)
    by simp
qed

text \<open>
  The claim as stated fails: on a new device the line \<open>HR:72,SPO2:abc\<close> is rejected,
  and the heart rate of the latest reading, unset before the call, is 72 after it.
\<close>

theorem failed_parse_changes_reading_counterexample:
  "fst (parse_data 0 0 ''HR:72,SPO2:abc'' fresh_device) = False
   \<and> hr (latest_data fresh_device) = None
   \<and> hr (latest_data (snd (parse_data 0 0 ''HR:72,SPO2:abc'' fresh_device))) = Some 72"
  by (simp add: parse_data_def ln_bad_spo2(2) update_latest_def and_then_def store_int_def
        py_int_literals new_device_def)

section \<open>Smoothing\<close>

lemma trunc_mean_72_75: "py_trunc (np_mean [72, 75]) = 73"
  by (simp add: np_mean_def py_trunc_def)

text \<open>
  Claim C4, as amended. In every state a device can reach, when the heart-rate smoothing
  buffer holds at least 3 samples the smoothed heart rate is the median of the buffer
  truncated to an integer, with 1 or 2 samples it is the arithmetic mean truncated to an
  integer, and with an empty buffer there is no smoothed value. Receiving the admitted
  samples 72, 75, 200, 74, 73 on a new device fills the buffer with exactly these and
  gives the smoothed value 74.
\<close>

theorem smoothed_hr_policy:
  assumes "reachable s"
  shows "(3 \<le> length (hr_smoothing_buffer s) \<longrightarrow>
            smoothed_hr s = Some (py_trunc (np_median (map real_of_int (hr_smoothing_buffer s)))))
       \<and> (0 < length (hr_smoothing_buffer s) \<and> length (hr_smoothing_buffer s) < 3 \<longrightarrow>
            smoothed_hr s = Some (py_trunc (np_mean (map real_of_int (hr_smoothing_buffer s)))))
       \<and> (hr_smoothing_buffer s = [] \<longrightarrow> smoothed_hr s = None)
       \<and> hr_smoothing_buffer outlier_run = [72, 75, 200, 74, 73]
       \<and> smoothed_hr outlier_run = Some 74"
proof -
  have "smoothed_current s" using assms by (rule reachable_smoothed)
  then have general: "(3 \<le> length (hr_smoothing_buffer s) \<longrightarrow>
            smoothed_hr s = Some (py_trunc (np_median (map real_of_int (hr_smoothing_buffer s)))))
       \<and> (0 < length (hr_smoothing_buffer s) \<and> length (hr_smoothing_buffer s) < 3 \<longrightarrow>
            smoothed_hr s = Some (py_trunc (np_mean (map real_of_int (hr_smoothing_buffer s)))))
       \<and> (hr_smoothing_buffer s = [] \<longrightarrow> smoothed_hr s = None)"
    by (simp add: smoothed_current_def)
  have "smoothed_current outlier_run" using reachable_runs(3) by (rule reachable_smoothed)
  then have "smoothed_hr outlier_run = Some (py_trunc (np_median (map real_of_int [72, 75, 200, 74, 73])))"
    by (simp add: smoothed_current_def outlier_run_state)
  also have "\<dots> = Some 74"
    by (simp add: np_median_def py_trunc_def)
  finally show ?thesis
    using general outlier_run_state by blast
qed

theorem smoothed_hr_policy_witness:
  "reachable outlier_run \<and> 3 \<le> length (hr_smoothing_buffer outlier_run)
   \<and> smoothed_hr outlier_run = Some 74
   \<and> reachable two_sample_run \<and> length (hr_smoothing_buffer two_sample_run) = 2
   \<and> smoothed_hr two_sample_run = Some 73
   \<and> reachable fresh_device \<and> hr_smoothing_buffer fresh_device = []
   \<and> smoothed_hr fresh_device = None"
proof -
  have e: "hr_smoothing_buffer fresh_device = []" by (simp add: new_device_def)
  have "smoothed_hr outlier_run = Some 74" "3 \<le> length (hr_smoothing_buffer outlier_run)"
    using smoothed_hr_policy [OF reachable_runs(3)] by simp_all
  moreover have "smoothed_hr two_sample_run = Some 73"
    using smoothed_hr_policy [OF reachable_runs(2)]
    by (simp add: two_sample_run_state trunc_mean_72_75)
  moreover have "smoothed_hr fresh_device = None"
    using smoothed_hr_policy [OF reachable_runs(1)] e by blast
  ultimately show ?thesis
    using reachable_runs e by (simp add: two_sample_run_state)
qed

text \<open>
  The claim as stated fails: after the admitted samples 72 and 75 the smoothed value is
  73, and the arithmetic mean of the buffer is 73.5.
\<close>

theorem two_sample_mean_truncated_counterexample:
  "hr_smoothing_buffer two_sample_run = [72, 75]
   \<and> smoothed_hr two_sample_run = Some 73
   \<and> np_mean (map real_of_int [72, 75]) = 147 / 2
   \<and> real_of_int 73 \<noteq> np_mean (map real_of_int [72, 75])"
proof -
  have m: "np_mean (map real_of_int [72, 75]) = 147 / 2"
    by (simp add: np_mean_def)
  have "smoothed_current two_sample_run" using reachable_runs(2) by (rule reachable_smoothed)
  then have "smoothed_hr two_sample_run = Some 73"
    by (simp add: smoothed_current_def two_sample_run_state trunc_mean_72_75)
  then show ?thesis
    unfolding m by (simp add: two_sample_run_state)
qed

section \<open>Metrics\<close>

lemma np_std_population: "np_std xs = population_std xs"
  by (simp add: np_std_def np_mean_def population_std_def)

text \<open>
  Claim C5. In every state a device can reach: if the heart-rate history is exactly
  60, 60, 60, 60, then the mean (and its alias) is 60, the standard deviation is 0 and
  the RMSSD is 0; and if the history holds fewer than 2 samples, every metric derived
  from it is absent.
\<close>

theorem history_metrics:
  assumes "reachable s"
  shows "(hr_history s = [60, 60, 60, 60] \<longrightarrow>
            bpm (metrics s) = Some 60 \<and> ipm (metrics s) = Some 60
          \<and> hrstd (metrics s) = Some 0 \<and> rmssd (metrics s) = Some 0)
       \<and> (length (hr_history s) < 2 \<longrightarrow>
            bpm (metrics s) = None \<and> ipm (metrics s) = None
          \<and> hrstd (metrics s) = None \<and> rmssd (metrics s) = None)"
proof -
  have cur: "metrics_current s" using assms by (rule reachable_metrics)
  have mean: "np_mean (map real_of_int [60, 60, 60, 60]) = 60"
    by (simp add: np_mean_def)
  have std: "np_std (map real_of_int [60, 60, 60, 60]) = 0"
    by (simp add: np_std_def np_mean_def)
  have rms: "sqrt (np_mean (map (\<lambda>d. real_of_int (d ^ 2)) (np_diff [60, 60, 60, 60]))) = 0"
    by (simp add: np_diff_def np_mean_def)
  show ?thesis
  proof (intro conjI impI)
    assume h: "hr_history s = [60, 60, 60, 60]"
    show "bpm (metrics s) = Some 60" "ipm (metrics s) = Some 60"
      "hrstd (metrics s) = Some 0" "rmssd (metrics s) = Some 0"
      using cur mean std rms by (simp_all add: metrics_current_def h)
  next
    assume "length (hr_history s) < 2"
    then show "bpm (metrics s) = None" "ipm (metrics s) = None"
      "hrstd (metrics s) = None" "rmssd (metrics s) = None"
      using cur by (simp_all add: metrics_current_def)
  qed
qed

theorem history_metrics_witness:
  "reachable steady_run \<and> hr_history steady_run = [60, 60, 60, 60]
   \<and> bpm (metrics steady_run) = Some 60 \<and> ipm (metrics steady_run) = Some 60
   \<and> hrstd (metrics steady_run) = Some 0 \<and> rmssd (metrics steady_run) = Some 0
   \<and> reachable fresh_device \<and> length (hr_history fresh_device) < 2
   \<and> bpm (metrics fresh_device) = None \<and> hrstd (metrics fresh_device) = None
   \<and> rmssd (metrics fresh_device) = None"
proof -
  have e: "length (hr_history fresh_device) < 2" by (simp add: new_device_def)
  show ?thesis
    using history_metrics [OF reachable_runs(4)] history_metrics [OF reachable_runs(1)]
      reachable_runs steady_run_state e
    by blast
qed

text \<open>
  Claim C6, as amended. Whenever the history window of a reachable state holds
  \<open>n \<ge> 2\<close> samples, the \<open>hrstd\<close> metric is the population standard deviation of the
  window: the square root of the sum of squared deviations from the mean divided by
  \<open>n\<close>.
\<close>

theorem hrstd_population:
  assumes "reachable s" and "2 \<le> length (hr_history s)"
  shows "hrstd (metrics s) = Some (population_std (map real_of_int (hr_history s)))"
  using reachable_metrics [OF assms(1)] assms(2)
  by (simp add: metrics_current_def np_std_population)

theorem hrstd_population_witness:
  "reachable spread_run \<and> 2 \<le> length (hr_history spread_run)
   \<and> hrstd (metrics spread_run) = Some (population_std (map real_of_int (hr_history spread_run)))"
proof -
  have "2 \<le> length (hr_history spread_run)" by (simp add: spread_run_state)
  then show ?thesis
    using hrstd_population [OF reachable_runs(5)] reachable_runs(5) by blast
qed

text \<open>
  The claim as stated fails: with the history 40, 42 the metric is 1, and the sample
  standard deviation (division by \<open>n - 1\<close>) is the square root of 2.
\<close>

theorem hrstd_not_sample_std_counterexample:
  "hr_history spread_run = [40, 42]
   \<and> hrstd (metrics spread_run) = Some 1
   \<and> sample_std (map real_of_int [40, 42]) = sqrt 2
   \<and> sqrt 2 \<noteq> (1 :: real)"
proof -
  have "metrics_current spread_run" using reachable_runs(5) by (rule reachable_metrics)
  then have "hrstd (metrics spread_run) = Some (np_std (map real_of_int [40, 42]))"
    by (simp add: metrics_current_def spread_run_state)
  moreover have "np_std (map real_of_int [40, 42]) = 1"
    by (simp add: np_std_def np_mean_def)
  moreover have "sample_std (map real_of_int [40, 42]) = sqrt 2"
    by (simp add: sample_std_def)
  ultimately show ?thesis
    by (simp add: spread_run_state)
qed

text \<open>
  Claim C7, as amended. After every line on which \<open>parse_data\<close> succeeds and that
  carries an SpO2 sample \<open>v\<close> with \<open>70 \<le> v \<le> 100\<close>, if the SpO2 valid flag is set after
  the line and the history window then holds at least 2 heart-rate samples, \<open>v\<close> is
  admitted to the SpO2 smoothing buffer and the \<open>avg_spo2\<close> metric equals \<open>v\<close>: the
  metric is the latest admitted reading, not a value over a window.
\<close>

theorem avg_spo2_passthrough:
  fixes now t line s
  defines "s' \<equiv> snd (parse_data now t line s)"
  assumes "fst (parse_data now t line s)"
    and "line_value (data_dict line) ''SPO2'' = Some v"
    and "spo2_valid (latest_data s')"
    and "70 \<le> v" and "v \<le> 100"
    and "2 \<le> length (hr_history s')"
  shows "spo2_smoothing_buffer s' = deque_append 5 v (spo2_smoothing_buffer s)
       \<and> avg_spo2 (metrics s') = Some v"
proof -
  have ok: "\<not> decode_fails (data_dict line)"
    using assms(2) by (simp add: parse_data_flag)
  have v: "spo2 (decoded (data_dict line) (latest_data s)) = Some v"
    using assms(3) by (simp add: decoded_fields)
  have flag: "spo2_valid (decoded (data_dict line) (latest_data s))"
    using assms(4) unfolding s'_def by (simp add: parse_ok_latest [OF ok])
  have "spo2 (latest_data s') = Some v"
    unfolding s'_def using v by (simp add: parse_ok_latest [OF ok])
  then have "avg_spo2 (metrics s') = Some v"
    using assms(4,7) parse_ok_metrics [OF ok, of now t s] unfolding s'_def by simp
  moreover have "spo2_smoothing_buffer s' = deque_append 5 v (spo2_smoothing_buffer s)"
    unfolding s'_def using v flag assms(5,6) by (simp add: parse_ok_spo2 [OF ok])
  ultimately show ?thesis by simp
qed

theorem avg_spo2_passthrough_witness:
  "fst (parse_data 1 1 ''SPO2:98,SPO2_VALID:1'' two_sample_run)
   \<and> line_value (data_dict ''SPO2:98,SPO2_VALID:1'') ''SPO2'' = Some 98
   \<and> spo2_valid (latest_data (snd (parse_data 1 1 ''SPO2:98,SPO2_VALID:1'' two_sample_run)))
   \<and> (70 :: int) \<le> 98 \<and> (98 :: int) \<le> 100
   \<and> 2 \<le> length (hr_history (snd (parse_data 1 1 ''SPO2:98,SPO2_VALID:1'' two_sample_run)))
   \<and> avg_spo2 (metrics (snd (parse_data 1 1 ''SPO2:98,SPO2_VALID:1'' two_sample_run))) = Some 98"
proof -
  have a: "fst (parse_data 1 1 ''SPO2:98,SPO2_VALID:1'' two_sample_run)"
    by (simp add: parse_data_flag ln_spo2_98v(2))
  have b: "line_value (data_dict ''SPO2:98,SPO2_VALID:1'') ''SPO2'' = Some 98"
    by (simp add: line_value_def ln_spo2_98v(4) py_int_literals)
  have c: "spo2_valid (latest_data (snd (parse_data 1 1 ''SPO2:98,SPO2_VALID:1'' two_sample_run)))"
    by (simp add: parse_ok_latest ln_spo2_98v(2,3))
  have d: "2 \<le> length (hr_history (snd (parse_data 1 1 ''SPO2:98,SPO2_VALID:1'' two_sample_run)))"
    by (simp add: parse_ok_hr ln_spo2_98v(2,3) two_sample_run_state deque_append_def)
  have e: "(70 :: int) \<le> 98" "(98 :: int) \<le> 100" by simp_all
  show ?thesis
    using avg_spo2_passthrough [OF a b c e d] a b c d by simp
qed

text \<open>
  The claim as stated fails: on a new device the line \<open>SPO2:98,SPO2_VALID:1\<close> is parsed
  and 98 is admitted to the SpO2 smoothing buffer, but the history window is empty and
  \<open>avg_spo2\<close> stays absent.
\<close>

theorem avg_spo2_needs_history_counterexample:
  "fst (parse_data 0 0 ''SPO2:98,SPO2_VALID:1'' fresh_device)
   \<and> spo2 (latest_data (snd (parse_data 0 0 ''SPO2:98,SPO2_VALID:1'' fresh_device))) = Some 98
   \<and> spo2_valid (latest_data (snd (parse_data 0 0 ''SPO2:98,SPO2_VALID:1'' fresh_device)))
   \<and> spo2_smoothing_buffer (snd (parse_data 0 0 ''SPO2:98,SPO2_VALID:1'' fresh_device)) = [98]
   \<and> hr_history (snd (parse_data 0 0 ''SPO2:98,SPO2_VALID:1'' fresh_device)) = []
   \<and> avg_spo2 (metrics (snd (parse_data 0 0 ''SPO2:98,SPO2_VALID:1'' fresh_device))) = None"
  by (simp add: parse_data_flag parse_ok_latest parse_ok_hr parse_ok_spo2 parse_ok_metrics
        ln_spo2_98v(2,3) new_device_def deque_append_def)

section \<open>Connecting\<close>

text \<open>
  Claim C8, as amended. \<open>connect()\<close> never raises: it returns a flag. With a connection
  target set and the link established it returns success, the connection flag is set
  and the status is \<open>connected\<close>. With a target set and a failure of the transport it
  returns a failure, the connection flag is cleared and the status is \<open>error\<close>. With no
  connection target it returns a failure and leaves the device, its status included,
  exactly as it was.
\<close>

theorem connect_outcomes:
  "(mac_address s = None \<longrightarrow> connect bt s = (False, s))
   \<and> (mac_address s \<noteq> None \<and> bt = Established \<longrightarrow>
        fst (connect bt s) \<and> connected (snd (connect bt s))
      \<and> status (latest_data (snd (connect bt s))) = ''connected'')
   \<and> (mac_address s \<noteq> None \<and> bt \<noteq> Established \<longrightarrow>
        \<not> fst (connect bt s) \<and> \<not> connected (snd (connect bt s))
      \<and> status (latest_data (snd (connect bt s))) = ''error'')"
  by (cases bt) (simp_all add: connect_def)

theorem connect_outcomes_witness:
  "mac_address (new_device 2 ''ESP32_HR_2'' None) = None
   \<and> connect Established (new_device 2 ''ESP32_HR_2'' None)
       = (False, new_device 2 ''ESP32_HR_2'' None)
   \<and> mac_address fresh_device \<noteq> None
   \<and> fst (connect Established fresh_device)
   \<and> status (latest_data (snd (connect Established fresh_device))) = ''connected''
   \<and> \<not> fst (connect ConnectRaises fresh_device)
   \<and> status (latest_data (snd (connect ConnectRaises fresh_device))) = ''error''"
proof -
  have a: "mac_address (new_device 2 ''ESP32_HR_2'' None) = None"
    "mac_address fresh_device \<noteq> None"
    by (simp_all add: new_device_def)
  show ?thesis
    using connect_outcomes [of "new_device 2 ''ESP32_HR_2'' None" Established]
      connect_outcomes [of fresh_device Established]
      connect_outcomes [of fresh_device ConnectRaises] a
    by simp
qed

text \<open>
  The claim as stated fails: a device without a connection target gets a failure from
  \<open>connect()\<close> and its status stays \<open>disconnected\<close>; it does not become \<open>error\<close>.
\<close>

theorem connect_without_target_counterexample:
  "fst (connect Established (new_device 2 ''ESP32_HR_2'' None)) = False
   \<and> status (latest_data (snd (connect Established (new_device 2 ''ESP32_HR_2'' None))))
       = ''disconnected''
   \<and> status (latest_data (snd (connect Established (new_device 2 ''ESP32_HR_2'' None))))
       \<noteq> ''error''"
  by (simp add: connect_def new_device_def)

section \<open>Derived values are never cleared\<close>

lemma metrics_after_keeps:
  "(bpm (metrics s) \<noteq> None \<longrightarrow> bpm (metrics (calculate_metrics s)) \<noteq> None)
   \<and> (ipm (metrics s) \<noteq> None \<longrightarrow> ipm (metrics (calculate_metrics s)) \<noteq> None)
   \<and> (hrstd (metrics s) \<noteq> None \<longrightarrow> hrstd (metrics (calculate_metrics s)) \<noteq> None)
   \<and> (rmssd (metrics s) \<noteq> None \<longrightarrow> rmssd (metrics (calculate_metrics s)) \<noteq> None)
   \<and> (avg_spo2 (metrics s) \<noteq> None \<longrightarrow> avg_spo2 (metrics (calculate_metrics s)) \<noteq> None)"
  by (cases "length (hr_history s) < 2") (simp_all add: metrics_after split: option.splits)

lemma smoothed_after_keeps:
  "(smoothed_hr s \<noteq> None \<longrightarrow> smoothed_hr (calculate_smoothed_values s) \<noteq> None)
   \<and> (smoothed_spo2 s \<noteq> None \<longrightarrow> smoothed_spo2 (calculate_smoothed_values s) \<noteq> None)"
  by (simp add: smoothed_hr_after smoothed_spo2_after)

lemma step_keeps:
  assumes "step s s'"
  shows "(smoothed_hr s \<noteq> None \<longrightarrow> smoothed_hr s' \<noteq> None)
       \<and> (smoothed_spo2 s \<noteq> None \<longrightarrow> smoothed_spo2 s' \<noteq> None)
       \<and> (bpm (metrics s) \<noteq> None \<longrightarrow> bpm (metrics s') \<noteq> None)
       \<and> (ipm (metrics s) \<noteq> None \<longrightarrow> ipm (metrics s') \<noteq> None)
       \<and> (hrstd (metrics s) \<noteq> None \<longrightarrow> hrstd (metrics s') \<noteq> None)
       \<and> (rmssd (metrics s) \<noteq> None \<longrightarrow> rmssd (metrics s') \<noteq> None)
       \<and> (avg_spo2 (metrics s) \<noteq> None \<longrightarrow> avg_spo2 (metrics s') \<noteq> None)"
  using assms
proof cases
  case (s_parse now t line)
  show ?thesis
  proof (cases "decode_fails (data_dict line)")
    case True
    show ?thesis
      unfolding s_parse parse_fail_fields [OF True] by simp
  next
    case False
    let ?x = "admit_spo2 (admit_hr t (set_status (data_dict line) now
                (s\<lparr>latest_data := decoded (data_dict line) (latest_data s)\<rparr>)))"
    have x: "smoothed_hr ?x = smoothed_hr s" "smoothed_spo2 ?x = smoothed_spo2 s"
      "metrics ?x = metrics s"
      by simp_all
    have s': "s' = calculate_metrics (calculate_smoothed_values ?x)"
      unfolding s_parse by (simp add: parse_data_ok [OF False])
    have sm: "smoothed_hr s' = smoothed_hr (calculate_smoothed_values ?x)"
      "smoothed_spo2 s' = smoothed_spo2 (calculate_smoothed_values ?x)"
      unfolding s' by simp_all
    have mt: "metrics (calculate_smoothed_values ?x) = metrics s"
      by simp
    show ?thesis
      using smoothed_after_keeps [of ?x] metrics_after_keeps [of "calculate_smoothed_values ?x"]
      unfolding sm x mt s' [symmetric] by blast
  qed
next
  case (s_connect bt)
  show ?thesis unfolding s_connect by simp
next
  case (s_disconnect cr)
  show ?thesis unfolding s_disconnect by simp
next
  case s_bt_error
  show ?thesis unfolding s_bt_error by simp
qed

lemma reachable_steps:
  assumes "step\<^sup>*\<^sup>* s s'" and "reachable s"
  shows "reachable s'"
  using assms by (induction rule: rtranclp_induct) (auto intro: r_step)

lemma same_buffer_same_smoothed:
  assumes "smoothed_current s" and "smoothed_current s'"
  shows "(hr_smoothing_buffer s' = hr_smoothing_buffer s \<longrightarrow> smoothed_hr s' = smoothed_hr s)
       \<and> (spo2_smoothing_buffer s' = spo2_smoothing_buffer s \<longrightarrow>
            smoothed_spo2 s' = smoothed_spo2 s)"
  using assms by (simp add: smoothed_current_def)

lemma same_history_same_metrics:
  assumes "metrics_current s" and "metrics_current s'" and "hr_history s' = hr_history s"
  shows "bpm (metrics s') = bpm (metrics s) \<and> ipm (metrics s') = ipm (metrics s)
       \<and> hrstd (metrics s') = hrstd (metrics s) \<and> rmssd (metrics s') = rmssd (metrics s)"
  using assms by (cases "length (hr_history s) < 2") (simp_all add: metrics_current_def)

lemma presence_kept:
  assumes "step\<^sup>*\<^sup>* s s'"
  shows "(smoothed_hr s \<noteq> None \<longrightarrow> smoothed_hr s' \<noteq> None)
       \<and> (smoothed_spo2 s \<noteq> None \<longrightarrow> smoothed_spo2 s' \<noteq> None)
       \<and> (bpm (metrics s) \<noteq> None \<longrightarrow> bpm (metrics s') \<noteq> None)
       \<and> (ipm (metrics s) \<noteq> None \<longrightarrow> ipm (metrics s') \<noteq> None)
       \<and> (hrstd (metrics s) \<noteq> None \<longrightarrow> hrstd (metrics s') \<noteq> None)
       \<and> (rmssd (metrics s) \<noteq> None \<longrightarrow> rmssd (metrics s') \<noteq> None)
       \<and> (avg_spo2 (metrics s) \<noteq> None \<longrightarrow> avg_spo2 (metrics s') \<noteq> None)"
  using assms
proof (induction rule: rtranclp_induct)
  case base
  show ?case by simp
next
  case (step y z)
  show ?case using step.IH step_keeps [OF step.hyps(2)] by simp
qed

text \<open>
  Claim C10, as amended. Once a smoothed heart rate, a smoothed SpO2 value or a metric
  is present, it stays present through every later sequence of operations on the
  device. A line that does not decode, \<open>disconnect\<close>, \<open>connect\<close> and the error handler of
  the receive loop leave both smoothed values and all metrics exactly as they were. Over
  any sequence of operations from a reachable state, a smoothed value is at its last
  value whenever its buffer is as it was, and the metrics of the history are at their
  last values whenever the history window is as it was.
\<close>

theorem derived_values_kept:
  assumes "reachable s" and "step\<^sup>*\<^sup>* s s'"
  shows "(smoothed_hr s \<noteq> None \<longrightarrow> smoothed_hr s' \<noteq> None)
       \<and> (smoothed_spo2 s \<noteq> None \<longrightarrow> smoothed_spo2 s' \<noteq> None)
       \<and> (bpm (metrics s) \<noteq> None \<longrightarrow> bpm (metrics s') \<noteq> None)
       \<and> (ipm (metrics s) \<noteq> None \<longrightarrow> ipm (metrics s') \<noteq> None)
       \<and> (hrstd (metrics s) \<noteq> None \<longrightarrow> hrstd (metrics s') \<noteq> None)
       \<and> (rmssd (metrics s) \<noteq> None \<longrightarrow> rmssd (metrics s') \<noteq> None)
       \<and> (avg_spo2 (metrics s) \<noteq> None \<longrightarrow> avg_spo2 (metrics s') \<noteq> None)
       \<and> (hr_smoothing_buffer s' = hr_smoothing_buffer s \<longrightarrow> smoothed_hr s' = smoothed_hr s)
       \<and> (spo2_smoothing_buffer s' = spo2_smoothing_buffer s \<longrightarrow>
            smoothed_spo2 s' = smoothed_spo2 s)
       \<and> (hr_history s' = hr_history s \<longrightarrow>
            bpm (metrics s') = bpm (metrics s) \<and> ipm (metrics s') = ipm (metrics s)
          \<and> hrstd (metrics s') = hrstd (metrics s) \<and> rmssd (metrics s') = rmssd (metrics s))
       \<and> (\<not> fst (parse_data now t line s) \<longrightarrow>
            smoothed_hr (snd (parse_data now t line s)) = smoothed_hr s
          \<and> smoothed_spo2 (snd (parse_data now t line s)) = smoothed_spo2 s
          \<and> metrics (snd (parse_data now t line s)) = metrics s)
       \<and> smoothed_hr (disconnect cr s) = smoothed_hr s
       \<and> smoothed_spo2 (disconnect cr s) = smoothed_spo2 s
       \<and> metrics (disconnect cr s) = metrics s
       \<and> smoothed_hr (snd (connect bt s)) = smoothed_hr s
       \<and> smoothed_spo2 (snd (connect bt s)) = smoothed_spo2 s
       \<and> metrics (snd (connect bt s)) = metrics s
       \<and> smoothed_hr (on_bluetooth_error s) = smoothed_hr s
       \<and> smoothed_spo2 (on_bluetooth_error s) = smoothed_spo2 s
       \<and> metrics (on_bluetooth_error s) = metrics s"
proof -
  have r': "reachable s'" using assms(2,1) by (rule reachable_steps)
  note sm = same_buffer_same_smoothed [OF reachable_smoothed [OF assms(1)] reachable_smoothed [OF r']]
  have mt: "hr_history s' = hr_history s \<longrightarrow>
            bpm (metrics s') = bpm (metrics s) \<and> ipm (metrics s') = ipm (metrics s)
          \<and> hrstd (metrics s') = hrstd (metrics s) \<and> rmssd (metrics s') = rmssd (metrics s)"
    using same_history_same_metrics [OF reachable_metrics [OF assms(1)] reachable_metrics [OF r']]
    by blast
  have fail: "\<not> fst (parse_data now t line s) \<longrightarrow>
            smoothed_hr (snd (parse_data now t line s)) = smoothed_hr s
          \<and> smoothed_spo2 (snd (parse_data now t line s)) = smoothed_spo2 s
          \<and> metrics (snd (parse_data now t line s)) = metrics s"
    by (simp add: parse_data_flag parse_fail_fields)
  show ?thesis
    using presence_kept [OF assms(2)] sm mt fail by simp
qed

theorem derived_values_kept_witness:
  "reachable two_sample_run
   \<and> step\<^sup>*\<^sup>* two_sample_run
       (disconnect False (snd (parse_data 1 1 ''HR:abc''
                                 (snd (parse_data 1 1 ''STATUS:NO_FINGER'' two_sample_run)))))
   \<and> smoothed_hr two_sample_run = Some 73
   \<and> bpm (metrics two_sample_run) \<noteq> None
   \<and> smoothed_hr (disconnect False (snd (parse_data 1 1 ''HR:abc''
                (snd (parse_data 1 1 ''STATUS:NO_FINGER'' two_sample_run))))) \<noteq> None
   \<and> bpm (metrics (disconnect False (snd (parse_data 1 1 ''HR:abc''
                (snd (parse_data 1 1 ''STATUS:NO_FINGER'' two_sample_run)))))) \<noteq> None
   \<and> \<not> fst (parse_data 1 1 ''HR:abc'' two_sample_run)
   \<and> smoothed_hr (snd (parse_data 1 1 ''HR:abc'' two_sample_run)) = Some 73
   \<and> smoothed_hr (disconnect False two_sample_run) = Some 73"
proof -
  let ?a = "snd (parse_data 1 1 ''STATUS:NO_FINGER'' two_sample_run)"
  let ?b = "snd (parse_data 1 1 ''HR:abc'' ?a)"
  have "step\<^sup>*\<^sup>* two_sample_run ?a"
    by (rule r_into_rtranclp) (rule s_parse)
  then have "step\<^sup>*\<^sup>* two_sample_run ?b"
    by (rule rtranclp.rtrancl_into_rtrancl) (rule s_parse)
  then have run: "step\<^sup>*\<^sup>* two_sample_run (disconnect False ?b)"
    by (rule rtranclp.rtrancl_into_rtrancl) (rule s_disconnect)
  have "smoothed_current two_sample_run" using reachable_runs(2) by (rule reachable_smoothed)
  then have hr: "smoothed_hr two_sample_run = Some 73"
    by (simp add: smoothed_current_def two_sample_run_state trunc_mean_72_75)
  have "metrics_current two_sample_run" using reachable_runs(2) by (rule reachable_metrics)
  then have m: "bpm (metrics two_sample_run) \<noteq> None"
    by (simp add: metrics_current_def two_sample_run_state)
  have f: "\<not> fst (parse_data 1 1 ''HR:abc'' two_sample_run)"
    by (simp add: parse_data_flag ln_bad_hr)
  show ?thesis
    using derived_values_kept [OF reachable_runs(2) run, where now = 1 and t = 1
        and line = "''HR:abc''" and cr = False and bt = Established]
      reachable_runs(2) run hr m f
    by simp
qed

text \<open>
  The claim as stated fails: with the samples 72 and 75 admitted, the line
  \<open>STATUS:NO_FINGER\<close> carries no sample, and after it the smoothed heart rate has moved
  from 73 to 75 and the mean heart rate from 73.5 to 74.
\<close>

theorem sample_free_frame_moves_values_counterexample:
  "data_dict ''STATUS:NO_FINGER'' ''HR'' = None
   \<and> data_dict ''STATUS:NO_FINGER'' ''SPO2'' = None
   \<and> fst (parse_data 1 1 ''STATUS:NO_FINGER'' two_sample_run)
   \<and> smoothed_hr two_sample_run = Some 73
   \<and> smoothed_hr (snd (parse_data 1 1 ''STATUS:NO_FINGER'' two_sample_run)) = Some 75
   \<and> bpm (metrics two_sample_run) = Some (147 / 2)
   \<and> bpm (metrics (snd (parse_data 1 1 ''STATUS:NO_FINGER'' two_sample_run))) = Some 74"
proof -
  let ?a = "snd (parse_data 1 1 ''STATUS:NO_FINGER'' two_sample_run)"
  have keys: "data_dict ''STATUS:NO_FINGER'' ''HR'' = None"
    "data_dict ''STATUS:NO_FINGER'' ''SPO2'' = None"
    by (simp_all add: ln_no_finger(4))
  have ok: "fst (parse_data 1 1 ''STATUS:NO_FINGER'' two_sample_run)"
    by (simp add: parse_data_flag ln_no_finger(2))
  have "smoothed_current two_sample_run" using reachable_runs(2) by (rule reachable_smoothed)
  then have before: "smoothed_hr two_sample_run = Some 73"
    by (simp add: smoothed_current_def two_sample_run_state trunc_mean_72_75)
  have "metrics_current two_sample_run" using reachable_runs(2) by (rule reachable_metrics)
  then have mbefore: "bpm (metrics two_sample_run) = Some (147 / 2)"
    by (simp add: metrics_current_def two_sample_run_state np_mean_def)
  have buf: "hr_smoothing_buffer ?a = [72, 75, 75]" "hr_history ?a = [72, 75, 75]"
    by (simp_all add: parse_ok_hr ln_no_finger(2,3) two_sample_run_state deque_append_def)
  have after: "smoothed_hr ?a = Some 75"
    unfolding parse_ok_smoothed_hr [OF ln_no_finger(2)] buf
    by (simp add: np_median_def py_trunc_def)
  have mafter: "bpm (metrics ?a) = Some 74"
    unfolding parse_ok_metrics [OF ln_no_finger(2)] buf
    by (simp add: np_mean_def)
  show ?thesis
    using keys ok before mbefore after mafter by simp
qed

section \<open>Disconnecting\<close>

text \<open>
  Claim C9. \<open>disconnect()\<close> is idempotent and safe from every state: a second call in a
  row leaves exactly the device the first call left, whatever \<open>sock.close()\<close> does in
  either call, and after the first call the connection flag is false and the status is
  \<open>disconnected\<close>. The device is arbitrary, so this covers one that was never connected.
  No exception can leave the method: the model has no failure result, because the one
  call that can raise sits under a bare \<open>except\<close>.
\<close>

theorem disconnect_idempotent:
  "disconnect c2 (disconnect c1 s) = disconnect c1 s
   \<and> connected (disconnect c1 s) = False
   \<and> status (latest_data (disconnect c1 s)) = ''disconnected''"
  by (simp add: disconnect_def)

theorem disconnect_idempotent_witness:
  "disconnect True (disconnect False (new_device 1 ''ESP32_HR_1'' None))
     = disconnect False (new_device 1 ''ESP32_HR_1'' None)
   \<and> connected (disconnect False (new_device 1 ''ESP32_HR_1'' None)) = False
   \<and> status (latest_data (disconnect False (new_device 1 ''ESP32_HR_1'' None)))
       = ''disconnected''"
  using disconnect_idempotent [of True False "new_device 1 ''ESP32_HR_1'' None"] by simp

end
